theory Spec2Isabelle
  imports Main "HOL-Library.Multiset"
begin

section \<open>The Hetionet client: data model\<close>

text \<open>
  The client (\<^verbatim>\<open>hetionet_client.py\<close>, class \<^verbatim>\<open>HetioNetDB\<close>) keeps a property
  graph in Neo4j and a cache of disease summaries in MongoDB.  Its methods build Cypher
  statements and run them; the model below gives each statement the meaning Cypher
  gives it, on an explicit graph.

  Python values that are either a \<^verbatim>\<open>str\<close> or \<^verbatim>\<open>None\<close> are \<open>string option\<close>;
  Cypher's \<^verbatim>\<open>null\<close> is \<open>None\<close> as well.  Strings are lists of characters; the
  identifiers and codes of Hetionet are ASCII.
\<close>

datatype error =
    AttributeError      \<comment> \<open>a method called on \<^verbatim>\<open>None\<close>\<close>
  | TypeError           \<comment> \<open>\<^verbatim>\<open>None\<close> subscripted\<close>
  | CypherSyntaxError   \<comment> \<open>the statement text built by an f-string is not the intended statement\<close>

subsection \<open>Python string operations\<close>

definition is_marker :: "char \<Rightarrow> bool" where
  "is_marker c = (c = CHR ''>'' \<or> c = CHR ''<'')"

text \<open>\<^verbatim>\<open>s.replace('>', '').replace('<', '')\<close>: every marker is removed.\<close>

definition strip_markers :: "string \<Rightarrow> string" where
  "strip_markers s = filter (\<lambda>c. c \<noteq> CHR ''<'') (filter (\<lambda>c. c \<noteq> CHR ''>'') s)"

text \<open>\<^verbatim>\<open>s.replace('>', '_').replace('<', '_')\<close>: every marker becomes an underscore.\<close>

definition underscore_markers :: "string \<Rightarrow> string" where
  "underscore_markers s =
     map (\<lambda>c. if c = CHR ''<'' then CHR ''_'' else c)
       (map (\<lambda>c. if c = CHR ''>'' then CHR ''_'' else c) s)"

text \<open>\<^verbatim>\<open>s.upper()\<close> on ASCII text: the letters a to z move to A to Z, every
  other character stays.\<close>

definition upper_char :: "char \<Rightarrow> char" where
  "upper_char c =
     (case map_of (zip ''abcdefghijklmnopqrstuvwxyz'' ''ABCDEFGHIJKLMNOPQRSTUVWXYZ'') c of
        Some u \<Rightarrow> u
      | None \<Rightarrow> c)"

definition upper :: "string \<Rightarrow> string" where
  "upper s = map upper_char s"

text \<open>\<^verbatim>\<open>a or b\<close> on values that are a string or \<^verbatim>\<open>None\<close>: \<^verbatim>\<open>None\<close> and the empty
  string are falsy.\<close>

definition py_or :: "string option \<Rightarrow> string option \<Rightarrow> string option" where
  "py_or a b = (if a \<noteq> None \<and> a \<noteq> Some [] then a else b)"

text \<open>An f-string field \<^verbatim>\<open>{v}\<close>: \<^verbatim>\<open>None\<close> is printed as the text None.\<close>

fun fstr :: "string option \<Rightarrow> string" where
  "fstr None = ''None''"
| "fstr (Some s) = s"

subsection \<open>The relationship table\<close>

text \<open>The dictionary literal of \<^verbatim>\<open>_parse_metaedge\<close>, in the order of the source.\<close>

definition mapping :: "(string \<times> string) list" where
  "mapping =
    [(''GiG'', ''INTERACTS''),
     (''GrG'', ''REGULATES''),
     (''GcG'', ''COVARIES''),
     (''CtD'', ''TREATS''),
     (''CpD'', ''PALLIATES''),
     (''CuG'', ''UPREGULATES''),
     (''CdG'', ''DOWNREGULATES''),
     (''CbG'', ''BINDS''),
     (''DaG'', ''ASSOCIATES''),
     (''DuG'', ''UPREGULATES''),
     (''DdG'', ''DOWNREGULATES''),
     (''DlA'', ''LOCALIZES_TO''),
     (''AuG'', ''UPREGULATES''),
     (''AdG'', ''DOWNREGULATES''),
     (''AeG'', ''EXPRESSES''),
     (''CRC'', ''RESEMBLES''),
     (''DRD'', ''RESEMBLES''),
     (''GRG'', ''REGULATES'')]"

text \<open>
  \<^verbatim>\<open>_parse_metaedge(self, metaedge)\<close>.  The argument comes from a row of the edges
  file and is \<^verbatim>\<open>None\<close> when the row has no metaedge; \<^verbatim>\<open>None.replace\<close> raises
  AttributeError.  \<^verbatim>\<open>mapping.get(k, default)\<close> is the table entry, or the default.
\<close>

definition parse_metaedge :: "string option \<Rightarrow> error + string" where
  "parse_metaedge metaedge =
     (case metaedge of
        None \<Rightarrow> Inl AttributeError
      | Some m \<Rightarrow>
          (let clean_metaedge = strip_markers m
           in Inr (case map_of mapping clean_metaedge of
                     Some rel_type \<Rightarrow> rel_type
                   | None \<Rightarrow> underscore_markers (upper clean_metaedge))))"

subsection \<open>The graph store\<close>

text \<open>
  A node of the graph has one label (its kind) and the properties \<^verbatim>\<open>id\<close> and
  \<^verbatim>\<open>name\<close>; a property set to \<^verbatim>\<open>null\<close> is absent.  Neo4j tells nodes apart by an
  identity of its own, here \<open>ident\<close>: two nodes may agree on label and properties.
  No statement of the client changes or deletes a node, so a relationship carries its
  two end nodes.
\<close>

record node =
  ident :: nat
  label :: string
  n_id :: "string option"
  n_name :: "string option"

record edge =
  src :: node
  rel_type :: string
  tgt :: node

text \<open>The documents of query 1, as built by the dictionary displays of the source.\<close>

record drug =
  drug_id :: "string option"
  drug_name :: "string option"
  drug_type :: "string option"

record gene =
  gene_id :: "string option"
  gene_name :: "string option"
  gene_relationship :: "string option"

record location =
  location_id :: "string option"
  location_name :: "string option"

record disease_info =
  doc_id :: "string option"
  name :: "string option"
  drugs :: "drug list"
  genes :: "gene list"
  locations :: "location list"

text \<open>The result of query 1 is the document with two more keys.  The elapsed time is
  read from the clock; the model takes the rounded value as an argument.\<close>

record query1_result = disease_info +
  query_time_ms :: int
  data_source :: string

record mechanism =
  m_gene :: "string option"
  compound_effect :: string
  m_anatomy :: "string option"
  anatomy_effect :: string

record treatment =
  compound_id :: "string option"
  compound_name :: "string option"
  mechanisms :: "mechanism list"

record query2_result =
  q2_disease_id :: string
  potential_treatments_count :: nat
  treatments :: "treatment list"
  q2_query_time_ms :: int

text \<open>The lines printed by the loaders that carry a count.\<close>

datatype report =
    CreatedNodes nat string           \<comment> \<open>\<^verbatim>\<open>Created {len(nodes)} {kind} nodes\<close>\<close>
  | CreatedIndexes                    \<comment> \<open>\<^verbatim>\<open>Created indexes\<close>\<close>
  | CreatedRelationships nat string   \<comment> \<open>\<^verbatim>\<open>Created {len(edges)} {rel_type} relationships\<close>\<close>

text \<open>
  The state behind a \<^verbatim>\<open>HetioNetDB\<close> object: the Neo4j graph with its indexes (an index
  is on the \<^verbatim>\<open>id\<close> property of a label), the MongoDB collection \<^verbatim>\<open>diseases\<close> keyed
  by \<^verbatim>\<open>_id\<close>, and the counting lines the loaders printed (the other lines of the
  console are left out).
\<close>

record hetionet_db =
  nodes :: "node list"
  edges :: "edge list"
  indexes :: "string list"
  diseases_collection :: "string option \<rightharpoonup> disease_info"
  stdout :: "report list"

definition empty_db :: hetionet_db where
  "empty_db = \<lparr>nodes = [], edges = [], indexes = [], diseases_collection = Map.empty, stdout = []\<rparr>"

text \<open>A row of \<^verbatim>\<open>csv.DictReader\<close>: \<^verbatim>\<open>row.get(k)\<close> is the field, or \<^verbatim>\<open>None\<close>.\<close>

type_synonym row = "string \<rightharpoonup> string"

text \<open>
  The loaders splice a kind or a relationship type into the statement text.  The text is
  the intended statement when the spliced string is a plain Cypher name: letters, digits
  and underscores, not starting with a digit.  For any other string the model stops
  with \<open>CypherSyntaxError\<close>.
\<close>

definition cypher_name :: "string \<Rightarrow> bool" where
  "cypher_name s =
     (s \<noteq> [] \<and> hd s \<notin> set ''0123456789'' \<and>
      set s \<subseteq> set ''abcdefghijklmnopqrstuvwxyzABCDEFGHIJKLMNOPQRSTUVWXYZ0123456789_'')"

text \<open>A \<^verbatim>\<open>for\<close> loop over statements, left by the first exception.  Each statement
  commits on its own, so the statements run before the exception stay in the store; the
  model returns the exception alone, and every property below is about a run that
  finished.\<close>

fun for_each :: "('a \<Rightarrow> 's \<Rightarrow> error + 's) \<Rightarrow> 'a list \<Rightarrow> 's \<Rightarrow> error + 's" where
  "for_each f [] s = Inr s"
| "for_each f (x # xs) s = (case f x s of Inl e \<Rightarrow> Inl e | Inr s' \<Rightarrow> for_each f xs s')"

text \<open>
  Grouping into a dictionary of lists: \<^verbatim>\<open>if k not in g: g[k] = []\<close> and
  \<^verbatim>\<open>g[k].append(v)\<close>.  A Python dictionary iterates in the order of first insertion.
\<close>

fun group_append :: "'k \<Rightarrow> 'v \<Rightarrow> ('k \<times> 'v list) list \<Rightarrow> ('k \<times> 'v list) list" where
  "group_append k v [] = [(k, [v])]"
| "group_append k v ((k', vs) # g) =
     (if k = k' then (k', vs @ [v]) # g else (k', vs) # group_append k v g)"

definition group_rows :: "('r \<Rightarrow> 'k) \<Rightarrow> ('r \<Rightarrow> 'v) \<Rightarrow> 'r list \<Rightarrow> ('k \<times> 'v list) list" where
  "group_rows key val rows = foldl (\<lambda>g r. group_append (key r) (val r) g) [] rows"

subsection \<open>Loading nodes\<close>

definition node_kind :: "row \<Rightarrow> string option" where
  "node_kind r = py_or (r ''Kind'') (r ''kind'')"

definition node_fields :: "row \<Rightarrow> string option \<times> string option" where
  "node_fields r = (py_or (r ''Id'') (r ''id''), py_or (r ''Name'') (r ''name''))"

definition nodes_by_kind :: "row list \<Rightarrow> (string option \<times> (string option \<times> string option) list) list" where
  "nodes_by_kind rows = group_rows node_kind node_fields rows"

text \<open>
  \<^verbatim>\<open>UNWIND $nodes AS node CREATE (n:{kind} {id: node.id, name: node.name})\<close>:
  one new node for each element of the list, whatever the graph holds already.
\<close>

definition create_nodes ::
  "string option \<Rightarrow> (string option \<times> string option) list \<Rightarrow> hetionet_db \<Rightarrow> error + hetionet_db" where
  "create_nodes kind ns d =
     (if cypher_name (fstr kind)
      then Inr (d\<lparr>nodes := nodes d @
                     map (\<lambda>(k, (i, n)). \<lparr>ident = k, label = fstr kind, n_id = i, n_name = n\<rparr>)
                       (enumerate (length (nodes d)) ns),
                  stdout := stdout d @ [CreatedNodes (length ns) (fstr kind)]\<rparr>)
      else Inl CypherSyntaxError)"

text \<open>\<^verbatim>\<open>CREATE INDEX IF NOT EXISTS FOR (n:{node_type}) ON (n.id)\<close>.\<close>

definition create_index :: "string \<Rightarrow> hetionet_db \<Rightarrow> hetionet_db" where
  "create_index node_type d =
     (if node_type \<in> set (indexes d) then d else d\<lparr>indexes := indexes d @ [node_type]\<rparr>)"

definition create_indexes :: "hetionet_db \<Rightarrow> hetionet_db" where
  "create_indexes d =
     (let d' = foldl (\<lambda>d node_type. create_index node_type d) d
                 [''Gene'', ''Compound'', ''Disease'', ''Anatomy'']
      in d'\<lparr>stdout := stdout d' @ [CreatedIndexes]\<rparr>)"

definition load_nodes :: "row list \<Rightarrow> hetionet_db \<Rightarrow> error + hetionet_db" where
  "load_nodes rows d =
     (case for_each (\<lambda>(kind, ns). create_nodes kind ns) (nodes_by_kind rows) d of
        Inl e \<Rightarrow> Inl e
      | Inr d' \<Rightarrow> Inr (create_indexes d'))"

subsection \<open>Loading edges\<close>

definition edge_metaedge :: "row \<Rightarrow> string option" where
  "edge_metaedge r = py_or (r ''Metaedge'') (r ''metaedge'')"

definition edge_fields :: "row \<Rightarrow> string option \<times> string option" where
  "edge_fields r = (py_or (r ''Source'') (r ''source''), py_or (r ''Target'') (r ''target''))"

definition edges_by_type :: "row list \<Rightarrow> (string option \<times> (string option \<times> string option) list) list" where
  "edges_by_type rows = group_rows edge_metaedge edge_fields rows"

text \<open>\<^verbatim>\<open>MATCH (n {id: v})\<close>: the nodes whose \<^verbatim>\<open>id\<close> equals \<open>v\<close>; nothing equals
  \<^verbatim>\<open>null\<close>.\<close>

definition match_id :: "hetionet_db \<Rightarrow> string option \<Rightarrow> node list" where
  "match_id d v =
     (case v of None \<Rightarrow> [] | Some s \<Rightarrow> filter (\<lambda>n. n_id n = Some s) (nodes d))"

text \<open>
  \<^verbatim>\<open>MATCH (source {id: edge.source}) MATCH (target {id: edge.target})
  CREATE (source)-[:{rel_type}]->(target)\<close> for one element of \<^verbatim>\<open>$edges\<close>: a
  relationship for every pair of a matching source and a matching target.
\<close>

definition edges_for :: "hetionet_db \<Rightarrow> string \<Rightarrow> string option \<times> string option \<Rightarrow> edge list" where
  "edges_for d rt e =
     concat (map (\<lambda>a. map (\<lambda>b. \<lparr>src = a, rel_type = rt, tgt = b\<rparr>) (match_id d (snd e)))
                 (match_id d (fst e)))"

definition create_relationships ::
  "string option \<Rightarrow> (string option \<times> string option) list \<Rightarrow> hetionet_db \<Rightarrow> error + hetionet_db" where
  "create_relationships metaedge es d =
     (case parse_metaedge metaedge of
        Inl e \<Rightarrow> Inl e
      | Inr rt \<Rightarrow>
          if cypher_name rt
          then Inr (d\<lparr>edges := edges d @ concat (map (edges_for d rt) es),
                      stdout := stdout d @ [CreatedRelationships (length es) rt]\<rparr>)
          else Inl CypherSyntaxError)"

definition load_edges :: "row list \<Rightarrow> hetionet_db \<Rightarrow> error + hetionet_db" where
  "load_edges rows d =
     for_each (\<lambda>(metaedge, es). create_relationships metaedge es) (edges_by_type rows) d"

subsection \<open>The disease query\<close>

text \<open>\<^verbatim>\<open>MATCH (d:Disease {id: $diseaseId})\<close>.\<close>

definition match_disease :: "hetionet_db \<Rightarrow> string option \<Rightarrow> node list" where
  "match_disease d v = filter (\<lambda>n. label n = ''Disease'') (match_id d v)"

text \<open>\<^verbatim>\<open>OPTIONAL MATCH\<close>: the matches, or one row of \<^verbatim>\<open>null\<close>s when there is none.\<close>

definition optional_match :: "'a list \<Rightarrow> 'a option list" where
  "optional_match xs = (if xs = [] then [None] else map Some xs)"

text \<open>\<^verbatim>\<open>(c:Compound)-[r:TREATS|PALLIATES]->(d)\<close>.\<close>

definition treating :: "hetionet_db \<Rightarrow> node \<Rightarrow> edge list" where
  "treating d dn =
     filter (\<lambda>r. tgt r = dn \<and> (rel_type r = ''TREATS'' \<or> rel_type r = ''PALLIATES'') \<and>
                 label (src r) = ''Compound'') (edges d)"

text \<open>\<^verbatim>\<open>(d)-[gr:ASSOCIATES|UPREGULATES|DOWNREGULATES]->(g:Gene)\<close>.\<close>

definition gene_links :: "hetionet_db \<Rightarrow> node \<Rightarrow> edge list" where
  "gene_links d dn =
     filter (\<lambda>gr. src gr = dn \<and>
                  (rel_type gr = ''ASSOCIATES'' \<or> rel_type gr = ''UPREGULATES'' \<or>
                   rel_type gr = ''DOWNREGULATES'') \<and>
                  label (tgt gr) = ''Gene'') (edges d)"

text \<open>\<^verbatim>\<open>(d)-[:LOCALIZES_TO]->(a:Anatomy)\<close>.\<close>

definition localizations :: "hetionet_db \<Rightarrow> node \<Rightarrow> edge list" where
  "localizations d dn =
     filter (\<lambda>l. src l = dn \<and> rel_type l = ''LOCALIZES_TO'' \<and> label (tgt l) = ''Anatomy'')
       (edges d)"

text \<open>The three map displays of the \<^verbatim>\<open>RETURN\<close> clause; a property of \<^verbatim>\<open>null\<close> is
  \<^verbatim>\<open>null\<close>, and so is its type.\<close>

definition drug_map :: "edge option \<Rightarrow> drug" where
  "drug_map r =
     \<lparr>drug_id = Option.bind r (\<lambda>r. n_id (src r)),
      drug_name = Option.bind r (\<lambda>r. n_name (src r)),
      drug_type = map_option rel_type r\<rparr>"

definition gene_map :: "edge option \<Rightarrow> gene" where
  "gene_map gr =
     \<lparr>gene_id = Option.bind gr (\<lambda>gr. n_id (tgt gr)),
      gene_name = Option.bind gr (\<lambda>gr. n_name (tgt gr)),
      gene_relationship = map_option rel_type gr\<rparr>"

definition location_map :: "edge option \<Rightarrow> location" where
  "location_map l =
     \<lparr>location_id = Option.bind l (\<lambda>l. n_id (tgt l)),
      location_name = Option.bind l (\<lambda>l. n_name (tgt l))\<rparr>"

text \<open>The rows before aggregation: the disease name, which is the grouping key, and the
  three maps.\<close>

definition disease_rows :: "hetionet_db \<Rightarrow> string option \<Rightarrow> (string option \<times> drug \<times> gene \<times> location) list" where
  "disease_rows d v =
     [(n_name dn, drug_map r, gene_map gr, location_map l).
        dn \<leftarrow> match_disease d v,
        r \<leftarrow> optional_match (treating d dn),
        gr \<leftarrow> optional_match (gene_links d dn),
        l \<leftarrow> optional_match (localizations d dn)]"

text \<open>\<^verbatim>\<open>collect(DISTINCT x)\<close>: the values of a group without repetition, each at its
  first place.\<close>

definition collect_distinct :: "'a list \<Rightarrow> 'a list" where
  "collect_distinct xs = rev (remdups (rev xs))"

text \<open>The records of the statement shared by \<^verbatim>\<open>_get_disease_info_from_neo4j\<close> and the
  direct branch of \<^verbatim>\<open>query1_disease_info\<close>: one record for each disease name.\<close>

definition disease_query ::
  "hetionet_db \<Rightarrow> string option \<Rightarrow> (string option \<times> drug list \<times> gene list \<times> location list) list" where
  "disease_query d v =
     map (\<lambda>(disease_name, rs).
            (disease_name,
             collect_distinct (map fst rs),
             collect_distinct (map (fst \<circ> snd) rs),
             collect_distinct (map (snd \<circ> snd) rs)))
       (group_rows fst snd (disease_rows d v))"

text \<open>\<^verbatim>\<open>Result.single()\<close>: the first record, \<^verbatim>\<open>None\<close> when there is none.\<close>

fun single :: "'a list \<Rightarrow> 'a option" where
  "single [] = None"
| "single (x # xs) = Some x"

text \<open>\<^verbatim>\<open>_get_disease_info_from_neo4j\<close>: subscripting the record raises TypeError when
  \<^verbatim>\<open>single()\<close> gave \<^verbatim>\<open>None\<close>.\<close>

definition get_disease_info_from_neo4j ::
  "hetionet_db \<Rightarrow> string option \<Rightarrow> string option \<Rightarrow> error + disease_info" where
  "get_disease_info_from_neo4j d disease_id disease_name =
     (case single (disease_query d disease_id) of
        None \<Rightarrow> Inl TypeError
      | Some (result_name, result_drugs, result_genes, result_locations) \<Rightarrow>
          Inr \<lparr>doc_id = disease_id,
               name = result_name,
               drugs = filter (\<lambda>x. drug_id x \<noteq> None) result_drugs,
               genes = filter (\<lambda>g. gene_id g \<noteq> None) result_genes,
               locations = filter (\<lambda>l. location_id l \<noteq> None) result_locations\<rparr>)"

text \<open>\<^verbatim>\<open>build_mongo_cache\<close>: for every node of \<^verbatim>\<open>MATCH (d:Disease)\<close>, the document is
  computed and stored under its id (\<^verbatim>\<open>replace_one\<close> with \<^verbatim>\<open>upsert=True\<close>).\<close>

definition cache_disease :: "node \<Rightarrow> hetionet_db \<Rightarrow> error + hetionet_db" where
  "cache_disease record d =
     (case get_disease_info_from_neo4j d (n_id record) (n_name record) of
        Inl e \<Rightarrow> Inl e
      | Inr disease_info \<Rightarrow>
          Inr (d\<lparr>diseases_collection := (diseases_collection d)(n_id record \<mapsto> disease_info)\<rparr>))"

definition build_mongo_cache :: "hetionet_db \<Rightarrow> error + hetionet_db" where
  "build_mongo_cache d =
     for_each cache_disease (filter (\<lambda>n. label n = ''Disease'') (nodes d)) d"

text \<open>\<^verbatim>\<open>query1_disease_info(disease_id, use_cache)\<close>; \<open>ms\<close> is the rounded elapsed
  time.  A document is a non-empty dictionary, so \<^verbatim>\<open>if result:\<close> tests for
  \<^verbatim>\<open>None\<close>.\<close>

definition query1_disease_info ::
  "hetionet_db \<Rightarrow> string \<Rightarrow> bool \<Rightarrow> int \<Rightarrow> error + query1_result option" where
  "query1_disease_info d disease_id use_cache ms =
     (if use_cache
      then Inr (map_option
                  (\<lambda>result. disease_info.extend result
                     \<lparr>query_time_ms = ms, data_source = ''MongoDB (cached)''\<rparr>)
                  (diseases_collection d (Some disease_id)))
      else
        (case single (disease_query d (Some disease_id)) of
           None \<Rightarrow> Inl TypeError
         | Some (result_name, result_drugs, result_genes, result_locations) \<Rightarrow>
             Inr (Some (disease_info.extend
                    \<lparr>doc_id = Some disease_id,
                     name = result_name,
                     drugs = filter (\<lambda>x. drug_id x \<noteq> None) result_drugs,
                     genes = filter (\<lambda>g. gene_id g \<noteq> None) result_genes,
                     locations = filter (\<lambda>l. location_id l \<noteq> None) result_locations\<rparr>
                    \<lparr>query_time_ms = ms, data_source = ''Neo4j (direct)''\<rparr>))))"

subsection \<open>The treatment query\<close>

definition regulates :: "edge \<Rightarrow> bool" where
  "regulates r = (rel_type r = ''UPREGULATES'' \<or> rel_type r = ''DOWNREGULATES'')"

text \<open>The pattern predicate \<^verbatim>\<open>(c)-[:TREATS|PALLIATES]->(d)\<close>.\<close>

definition treats :: "hetionet_db \<Rightarrow> node \<Rightarrow> node \<Rightarrow> bool" where
  "treats d c dn =
     (\<exists>r \<in> set (edges d). src r = c \<and> tgt r = dn \<and>
        (rel_type r = ''TREATS'' \<or> rel_type r = ''PALLIATES''))"

text \<open>
  The \<^verbatim>\<open>WHERE\<close> clause of query 2 is
  \<^verbatim>\<open>(up AND down) OR (down AND up) AND NOT (c)-[:TREATS|PALLIATES]->(d)\<close>.
  In Cypher \<^verbatim>\<open>AND\<close> binds tighter than \<^verbatim>\<open>OR\<close>, so the \<^verbatim>\<open>NOT\<close> belongs to the
  second alternative only.
\<close>

definition where_clause :: "hetionet_db \<Rightarrow> node \<Rightarrow> edge \<Rightarrow> edge \<Rightarrow> bool" where
  "where_clause d dn cr ar =
     ((rel_type cr = ''UPREGULATES'' \<and> rel_type ar = ''DOWNREGULATES'') \<or>
      ((rel_type cr = ''DOWNREGULATES'' \<and> rel_type ar = ''UPREGULATES'') \<and>
       \<not> treats d (src cr) dn))"

text \<open>The rows of the three \<^verbatim>\<open>MATCH\<close> clauses that pass the \<^verbatim>\<open>WHERE\<close> clause: the
  grouping key (compound id and name) and the mechanism map.\<close>

definition treatment_rows ::
  "hetionet_db \<Rightarrow> string option \<Rightarrow> ((string option \<times> string option) \<times> mechanism) list" where
  "treatment_rows d v =
     [((n_id (src cr), n_name (src cr)),
       \<lparr>m_gene = n_name (tgt cr), compound_effect = rel_type cr,
        m_anatomy = n_name (tgt l), anatomy_effect = rel_type ar\<rparr>).
        dn \<leftarrow> match_disease d v,
        l \<leftarrow> localizations d dn,
        cr \<leftarrow> filter (\<lambda>cr. regulates cr \<and> label (src cr) = ''Compound'' \<and>
                             label (tgt cr) = ''Gene'') (edges d),
        ar \<leftarrow> filter (\<lambda>ar. src ar = tgt l \<and> tgt ar = tgt cr \<and> regulates ar) (edges d),
        where_clause d dn cr ar]"

text \<open>\<^verbatim>\<open>ORDER BY compound_name\<close>: ascending, strings by code point, \<^verbatim>\<open>null\<close> last.\<close>

fun str_le :: "string \<Rightarrow> string \<Rightarrow> bool" where
  "str_le [] t = True"
| "str_le (x # s) [] = False"
| "str_le (x # s) (y # t) =
     ((of_char x :: nat) < of_char y \<or> (x = y \<and> str_le s t))"

fun name_le :: "string option \<Rightarrow> string option \<Rightarrow> bool" where
  "name_le a None = True"
| "name_le None (Some t) = False"
| "name_le (Some s) (Some t) = str_le s t"

fun insert_by_name :: "treatment \<Rightarrow> treatment list \<Rightarrow> treatment list" where
  "insert_by_name x [] = [x]"
| "insert_by_name x (y # ys) =
     (if name_le (compound_name y) (compound_name x) then y # insert_by_name x ys
      else x # y # ys)"

definition order_by_name :: "treatment list \<Rightarrow> treatment list" where
  "order_by_name ts = foldl (\<lambda>acc t. insert_by_name t acc) [] ts"

definition treatment_query :: "hetionet_db \<Rightarrow> string option \<Rightarrow> treatment list" where
  "treatment_query d v =
     order_by_name
       (map (\<lambda>((c_id, c_name), ms).
               \<lparr>compound_id = c_id, compound_name = c_name,
                mechanisms = collect_distinct ms\<rparr>)
          (group_rows fst snd (treatment_rows d v)))"

text \<open>\<^verbatim>\<open>query2_find_treatments(disease_id)\<close>; \<open>ms\<close> is the rounded elapsed time.\<close>

definition query2_find_treatments :: "hetionet_db \<Rightarrow> string \<Rightarrow> int \<Rightarrow> query2_result" where
  "query2_find_treatments d disease_id ms =
     (let found = treatment_query d (Some disease_id)
      in \<lparr>q2_disease_id = disease_id,
          potential_treatments_count = length found,
          treatments = found,
          q2_query_time_ms = ms\<rparr>)"

section \<open>Example inputs\<close>

text \<open>Rows as the Hetionet files give them (their headers are in lower case), and the
  graph of a small example: a disease, a gene, two compounds and an anatomy.\<close>

definition node_row :: "string \<Rightarrow> string \<Rightarrow> string \<Rightarrow> row" where
  "node_row i n k = map_of [(''id'', i), (''name'', n), (''kind'', k)]"

definition edge_row :: "string \<Rightarrow> string \<Rightarrow> string \<Rightarrow> row" where
  "edge_row s m t = map_of [(''source'', s), (''metaedge'', m), (''target'', t)]"

definition flu :: node where
  "flu = \<lparr>ident = 0, label = ''Disease'', n_id = Some ''D1'', n_name = Some ''Flu''\<rparr>"

definition flu_db :: hetionet_db where
  "flu_db =
     \<lparr>nodes = [flu], edges = [],
      indexes = [''Gene'', ''Compound'', ''Disease'', ''Anatomy''],
      diseases_collection = Map.empty,
      stdout = [CreatedNodes 1 ''Disease'', CreatedIndexes]\<rparr>"

definition gene_a :: node where
  "gene_a = \<lparr>ident = 1, label = ''Gene'', n_id = Some ''G1'', n_name = Some ''GeneA''\<rparr>"

definition drug_a :: node where
  "drug_a = \<lparr>ident = 2, label = ''Compound'', n_id = Some ''C1'', n_name = Some ''DrugA''\<rparr>"

definition drug_b :: node where
  "drug_b = \<lparr>ident = 3, label = ''Compound'', n_id = Some ''C2'', n_name = Some ''DrugB''\<rparr>"

definition lung :: node where
  "lung = \<lparr>ident = 4, label = ''Anatomy'', n_id = Some ''A1'', n_name = Some ''Lung''\<rparr>"

definition scenario_nodes :: "row list" where
  "scenario_nodes =
     [node_row ''D1'' ''Flu'' ''Disease'', node_row ''G1'' ''GeneA'' ''Gene'',
      node_row ''C1'' ''DrugA'' ''Compound'', node_row ''A1'' ''Lung'' ''Anatomy'',
      node_row ''C2'' ''DrugB'' ''Compound'']"

text \<open>The edges of the example: DrugA treats the disease, and both compounds
  upregulate the gene that the disease's anatomy downregulates.\<close>

definition scenario_edges :: "row list" where
  "scenario_edges =
     [edge_row ''C1'' ''CtD'' ''D1'', edge_row ''D1'' ''DaG'' ''G1'',
      edge_row ''D1'' ''DlA'' ''A1'', edge_row ''C2'' ''CuG'' ''G1'',
      edge_row ''A1'' ''AdG'' ''G1'', edge_row ''C1'' ''CuG'' ''G1'']"

definition nodes_db :: hetionet_db where
  "nodes_db =
     \<lparr>nodes = [flu, gene_a, drug_a, drug_b, lung], edges = [],
      indexes = [''Gene'', ''Compound'', ''Disease'', ''Anatomy''],
      diseases_collection = Map.empty,
      stdout = [CreatedNodes 1 ''Disease'', CreatedNodes 1 ''Gene'', CreatedNodes 2 ''Compound'',
                CreatedNodes 1 ''Anatomy'', CreatedIndexes]\<rparr>"

definition scenario_db :: hetionet_db where
  "scenario_db =
     nodes_db
       \<lparr>edges :=
          [\<lparr>src = drug_a, rel_type = ''TREATS'', tgt = flu\<rparr>,
           \<lparr>src = flu, rel_type = ''ASSOCIATES'', tgt = gene_a\<rparr>,
           \<lparr>src = flu, rel_type = ''LOCALIZES_TO'', tgt = lung\<rparr>,
           \<lparr>src = drug_b, rel_type = ''UPREGULATES'', tgt = gene_a\<rparr>,
           \<lparr>src = drug_a, rel_type = ''UPREGULATES'', tgt = gene_a\<rparr>,
           \<lparr>src = lung, rel_type = ''DOWNREGULATES'', tgt = gene_a\<rparr>],
        stdout := stdout nodes_db @
          [CreatedRelationships 1 ''TREATS'', CreatedRelationships 1 ''ASSOCIATES'',
           CreatedRelationships 1 ''LOCALIZES_TO'', CreatedRelationships 2 ''UPREGULATES'',
           CreatedRelationships 1 ''DOWNREGULATES'']\<rparr>"

text \<open>A store in which the id of the disease was loaded twice.\<close>

definition twin_db :: hetionet_db where
  "twin_db =
     \<lparr>nodes = [flu,
               \<lparr>ident = 1, label = ''Disease'', n_id = Some ''D1'', n_name = Some ''Influenza''\<rparr>,
               \<lparr>ident = 2, label = ''Gene'', n_id = Some ''G1'', n_name = Some ''GeneA''\<rparr>],
      edges = [],
      indexes = [''Gene'', ''Compound'', ''Disease'', ''Anatomy''],
      diseases_collection = Map.empty,
      stdout = [CreatedNodes 2 ''Disease'', CreatedNodes 1 ''Gene'', CreatedIndexes]\<rparr>"

text \<open>The store of the example with its nodes only and the cache rebuilt from it, and the
  same store after the edges were loaded: the cached document has no drugs.\<close>

definition flu_bare_doc :: disease_info where
  "flu_bare_doc =
     \<lparr>doc_id = Some ''D1'', name = Some ''Flu'', drugs = [], genes = [], locations = []\<rparr>"

definition cached_nodes_db :: hetionet_db where
  "cached_nodes_db = nodes_db\<lparr>diseases_collection := [Some ''D1'' \<mapsto> flu_bare_doc]\<rparr>"

definition stale_db :: hetionet_db where
  "stale_db = scenario_db\<lparr>diseases_collection := [Some ''D1'' \<mapsto> flu_bare_doc]\<rparr>"

section \<open>The relationship table is total and canonical\<close>

lemma strip_markers_free: "\<not> is_marker c \<or> c \<notin> set (strip_markers s)"
  by (auto simp: strip_markers_def is_marker_def)

lemma strip_markers_idem: "strip_markers (strip_markers s) = strip_markers s"
  by (induction s) (simp_all add: strip_markers_def)

lemma upper_char_not_marker:
  assumes nm: "\<not> is_marker c"
  shows "\<not> is_marker (upper_char c)"
proof (cases "map_of (zip ''abcdefghijklmnopqrstuvwxyz'' ''ABCDEFGHIJKLMNOPQRSTUVWXYZ'') c")
  case None
  with nm show ?thesis by (simp add: upper_char_def)
next
  case (Some u)
  then have "u \<in> set ''ABCDEFGHIJKLMNOPQRSTUVWXYZ''"
    by (meson map_of_SomeD set_zip_rightD)
  then have "\<not> is_marker u"
    by (auto simp: is_marker_def)
  with Some show ?thesis by (simp add: upper_char_def)
qed

lemma underscore_markers_id:
  "list_all (\<lambda>c. \<not> is_marker c) s \<Longrightarrow> underscore_markers s = s"
  by (induction s) (auto simp: underscore_markers_def is_marker_def)

lemma upper_strip_no_marker: "list_all (\<lambda>c. \<not> is_marker c) (upper (strip_markers s))"
  unfolding upper_def list_all_iff using strip_markers_free upper_char_not_marker by auto

lemma mapping_keys_distinct: "distinct (map fst mapping)"
  by (simp add: mapping_def)

text \<open>
  Claim C4.  \<open>parse_metaedge\<close> returns a relationship type for every code (it fails
  only on \<^verbatim>\<open>None\<close>), and the type depends on the code with the markers \<^verbatim>\<open>>\<close> and
  \<^verbatim>\<open><\<close> removed only.  A stripped code that is a key of the table gets the table's
  value, among them the nine pairs listed.  Any other code gets its stripped form in
  upper case with the markers replaced by underscores; no marker is left to replace, so
  this is the stripped form in upper case.  No result contains a marker.
\<close>

theorem parse_metaedge_canonical:
  "(\<exists>rel_type. parse_metaedge (Some code) = Inr rel_type) \<and>
   parse_metaedge (Some code) = parse_metaedge (Some (strip_markers code)) \<and>
   (\<forall>rel_type. (strip_markers code, rel_type) \<in> set mapping \<longrightarrow>
      parse_metaedge (Some code) = Inr rel_type) \<and>
   (strip_markers code \<notin> fst ` set mapping \<longrightarrow>
      parse_metaedge (Some code) = Inr (underscore_markers (upper (strip_markers code))) \<and>
      parse_metaedge (Some code) = Inr (upper (strip_markers code))) \<and>
   (\<forall>rel_type. parse_metaedge (Some code) = Inr rel_type \<longrightarrow>
      list_all (\<lambda>c. \<not> is_marker c) rel_type) \<and>
   map (\<lambda>c. parse_metaedge (Some c))
     [''CtD'', ''DaG'', ''DlA'', ''CuG'', ''DuG'', ''AuG'', ''CdG'', ''DdG'', ''AdG''] =
   map Inr
     [''TREATS'', ''ASSOCIATES'', ''LOCALIZES_TO'', ''UPREGULATES'', ''UPREGULATES'',
      ''UPREGULATES'', ''DOWNREGULATES'', ''DOWNREGULATES'', ''DOWNREGULATES'']"
proof (intro conjI allI impI)
  show "map (\<lambda>c. parse_metaedge (Some c))
     [''CtD'', ''DaG'', ''DlA'', ''CuG'', ''DuG'', ''AuG'', ''CdG'', ''DdG'', ''AdG''] =
   map Inr
     [''TREATS'', ''ASSOCIATES'', ''LOCALIZES_TO'', ''UPREGULATES'', ''UPREGULATES'',
      ''UPREGULATES'', ''DOWNREGULATES'', ''DOWNREGULATES'', ''DOWNREGULATES'']"
    by (simp add: parse_metaedge_def mapping_def strip_markers_def)
  show "\<exists>rel_type. parse_metaedge (Some code) = Inr rel_type"
    by (simp add: parse_metaedge_def Let_def)
  show "parse_metaedge (Some code) = parse_metaedge (Some (strip_markers code))"
    by (simp add: parse_metaedge_def strip_markers_idem)
  show "parse_metaedge (Some code) = Inr rel_type"
    if "(strip_markers code, rel_type) \<in> set mapping" for rel_type
    using that map_of_is_SomeI [OF mapping_keys_distinct] by (simp add: parse_metaedge_def)
  have absent: "map_of mapping (strip_markers code) = None"
    if "strip_markers code \<notin> fst ` set mapping"
    using that by (simp add: map_of_eq_None_iff)
  show "parse_metaedge (Some code) = Inr (underscore_markers (upper (strip_markers code)))"
    if "strip_markers code \<notin> fst ` set mapping"
    using absent [OF that] by (simp add: parse_metaedge_def)
  then show "parse_metaedge (Some code) = Inr (upper (strip_markers code))"
    if "strip_markers code \<notin> fst ` set mapping"
    using that by (simp add: underscore_markers_id upper_strip_no_marker)
  show "list_all (\<lambda>c. \<not> is_marker c) rel_type"
    if "parse_metaedge (Some code) = Inr rel_type" for rel_type
  proof (cases "map_of mapping (strip_markers code)")
    case None
    with that have "rel_type = underscore_markers (upper (strip_markers code))"
      by (simp add: parse_metaedge_def)
    then show ?thesis
      by (simp add: underscore_markers_id upper_strip_no_marker)
  next
    case (Some r)
    with that have "rel_type = r" by (simp add: parse_metaedge_def)
    moreover from Some have "r \<in> snd ` set mapping"
      by (metis map_of_SomeD snd_conv image_eqI)
    ultimately show ?thesis
      by (auto simp: mapping_def is_marker_def)
  qed
qed

theorem parse_metaedge_canonical_witness:
  "parse_metaedge (Some ''Gr>G'') = Inr ''REGULATES'' \<and>
   parse_metaedge (Some ''x<Y'') = Inr ''XY''"
proof -
  have known: "(strip_markers ''Gr>G'', ''REGULATES'') \<in> set mapping"
    by (simp add: strip_markers_def mapping_def)
  have unknown: "strip_markers ''x<Y'' \<notin> fst ` set mapping"
    by (simp add: strip_markers_def mapping_def)
  have up: "upper (strip_markers ''x<Y'') = ''XY''"
    by (simp add: upper_def upper_char_def strip_markers_def)
  have "parse_metaedge (Some ''Gr>G'') = Inr ''REGULATES''"
    using parse_metaedge_canonical [of "''Gr>G''"] known by blast
  moreover have "parse_metaedge (Some ''x<Y'') = Inr (upper (strip_markers ''x<Y''))"
    using parse_metaedge_canonical [of "''x<Y''"] unknown by blast
  ultimately show ?thesis
    using up by simp
qed

section \<open>Grouping\<close>

lemma collect_distinct_snoc:
  "collect_distinct (ks @ [k]) =
     (if k \<in> set ks then collect_distinct ks else collect_distinct ks @ [k])"
  by (simp add: collect_distinct_def)

lemma set_collect_distinct: "set (collect_distinct ks) = set ks"
  by (simp add: collect_distinct_def)

lemma distinct_collect_distinct: "distinct (collect_distinct ks)"
  by (simp add: collect_distinct_def)

lemma group_append_present:
  "k \<in> set ks \<Longrightarrow> distinct ks \<Longrightarrow>
   group_append k v (map (\<lambda>k'. (k', F k')) ks) =
   map (\<lambda>k'. (k', if k' = k then F k' @ [v] else F k')) ks"
  by (induction ks) auto

lemma group_append_absent:
  "k \<notin> set ks \<Longrightarrow>
   group_append k v (map (\<lambda>k'. (k', F k')) ks) = map (\<lambda>k'. (k', F k')) ks @ [(k, [v])]"
  by (induction ks) auto

lemma group_rows_snoc:
  "group_rows key val (rows @ [r]) = group_append (key r) (val r) (group_rows key val rows)"
  by (simp add: group_rows_def)

lemma group_rows_eq:
  "group_rows key val rows =
     map (\<lambda>k. (k, map val (filter (\<lambda>r. key r = k) rows))) (collect_distinct (map key rows))"
proof (induction rows rule: rev_induct)
  case Nil
  show ?case by (simp add: group_rows_def collect_distinct_def)
next
  case (snoc r rows)
  let ?F = "\<lambda>k. map val (filter (\<lambda>r. key r = k) rows)"
  let ?ks = "collect_distinct (map key rows)"
  show ?case
  proof (cases "key r \<in> set (map key rows)")
    case True
    then have "key r \<in> set ?ks" by (simp add: set_collect_distinct)
    then have "group_append (key r) (val r) (map (\<lambda>k. (k, ?F k)) ?ks) =
        map (\<lambda>k'. (k', if k' = key r then ?F k' @ [val r] else ?F k')) ?ks"
      by (rule group_append_present) (rule distinct_collect_distinct)
    with True snoc show ?thesis
      by (auto simp: group_rows_snoc collect_distinct_snoc)
  next
    case False
    then have "key r \<notin> set ?ks" by (simp add: set_collect_distinct)
    then have "group_append (key r) (val r) (map (\<lambda>k. (k, ?F k)) ?ks) =
        map (\<lambda>k. (k, ?F k)) ?ks @ [(key r, [val r])]"
      by (rule group_append_absent)
    moreover have "filter (\<lambda>x. key x = key r) rows = []"
      unfolding filter_empty_conv using False by (metis image_eqI set_map)
    moreover have "map (\<lambda>k. (k, if key r = k then ?F k @ [val r] else ?F k)) ?ks = map (\<lambda>k. (k, ?F k)) ?ks"
      using \<open>key r \<notin> set ?ks\<close> by (auto)
    ultimately show ?thesis
      using False snoc by (auto simp: group_rows_snoc collect_distinct_snoc set_collect_distinct)
  qed
qed

lemma sum_group_append:
  "(\<Sum>(k, vs)\<leftarrow>group_append k v g. \<Sum>x\<leftarrow>vs. f k x) = (\<Sum>(k, vs)\<leftarrow>g. \<Sum>x\<leftarrow>vs. f k x) + (f k v :: nat)"
  by (induction g) auto

lemma sum_group_rows:
  "(\<Sum>(k, vs)\<leftarrow>group_rows key val rows. \<Sum>x\<leftarrow>vs. f k x) = (\<Sum>r\<leftarrow>rows. (f (key r) (val r) :: nat))"
  by (induction rows rule: rev_induct) (simp_all add: group_rows_snoc sum_group_append, simp add: group_rows_def)

lemma length_filter_sum: "length (filter P xs) = (\<Sum>x\<leftarrow>xs. if P x then 1 else 0)"
  by (induction xs) auto

section \<open>Loading nodes\<close>

lemma create_nodes_Inr:
  "create_nodes kind ns d = Inr d' \<Longrightarrow>
     cypher_name (fstr kind) \<and>
     nodes d' = nodes d @ map (\<lambda>(k, (i, n)). \<lparr>ident = k, label = fstr kind, n_id = i, n_name = n\<rparr>)
                       (enumerate (length (nodes d)) ns) \<and>
     edges d' = edges d \<and> indexes d' = indexes d \<and>
     diseases_collection d' = diseases_collection d \<and>
     stdout d' = stdout d @ [CreatedNodes (length ns) (fstr kind)]"
  by (auto simp: create_nodes_def split: if_splits)

lemma filter_new_nodes:
  "length (filter (\<lambda>x. Q (label x) (n_id x) (n_name x))
      (map (\<lambda>(k, (i, n)). \<lparr>ident = k, label = L, n_id = i, n_name = n\<rparr>) (enumerate m ns))) =
   length (filter (\<lambda>(i, n). Q L i n) ns)"
  by (induction ns arbitrary: m) auto

lemma create_groups_nodes:
  "for_each (\<lambda>(kind, ns). create_nodes kind ns) gs d = Inr d' \<Longrightarrow>
     (\<exists>new. nodes d' = nodes d @ new \<and>
        length new = (\<Sum>(k, ns)\<leftarrow>gs. length ns) \<and>
        (\<forall>Q. length (filter (\<lambda>x. Q (label x) (n_id x) (n_name x)) new) =
           (\<Sum>(k, ns)\<leftarrow>gs. \<Sum>x\<leftarrow>ns. if Q (fstr k) (fst x) (snd x) then 1 else 0))) \<and>
     edges d' = edges d \<and> indexes d' = indexes d \<and>
     diseases_collection d' = diseases_collection d \<and>
     stdout d' = stdout d @ map (\<lambda>(k, ns). CreatedNodes (length ns) (fstr k)) gs"
proof (induction gs arbitrary: d)
  case Nil
  then show ?case by simp
next
  case (Cons g gs)
  obtain kind ns where g: "g = (kind, ns)" by (cases g)
  from Cons.prems g obtain d1 where
    first: "create_nodes kind ns d = Inr d1" and
    rest: "for_each (\<lambda>(kind, ns). create_nodes kind ns) gs d1 = Inr d'"
    by (auto split: sum.splits)
  note f = create_nodes_Inr [OF first]
  from Cons.IH [OF rest] obtain new where
    new: "nodes d' = nodes d1 @ new" "length new = (\<Sum>(k, ns)\<leftarrow>gs. length ns)"
      "\<And>Q. length (filter (\<lambda>x. Q (label x) (n_id x) (n_name x)) new) =
           (\<Sum>(k, ns)\<leftarrow>gs. \<Sum>x\<leftarrow>ns. if Q (fstr k) (fst x) (snd x) then 1 else 0)"
    and others: "edges d' = edges d1" "indexes d' = indexes d1"
      "diseases_collection d' = diseases_collection d1"
      "stdout d' = stdout d1 @ map (\<lambda>(k, ns). CreatedNodes (length ns) (fstr k)) gs"
    by blast
  let ?first = "map (\<lambda>(k, (i, n)). \<lparr>ident = k, label = fstr kind, n_id = i, n_name = n\<rparr>)
                       (enumerate (length (nodes d)) ns)"
  have "nodes d' = nodes d @ (?first @ new)"
    using f new(1) by simp
  moreover have "length (?first @ new) = (\<Sum>(k, ns)\<leftarrow>g # gs. length ns)"
    using new(2) g by simp
  moreover have "length (filter (\<lambda>x. Q (label x) (n_id x) (n_name x)) (?first @ new)) =
           (\<Sum>(k, ns)\<leftarrow>g # gs. \<Sum>x\<leftarrow>ns. if Q (fstr k) (fst x) (snd x) then 1 else 0)" for Q
  proof -
    have "length (filter (\<lambda>x. Q (label x) (n_id x) (n_name x)) ?first) =
        length (filter (\<lambda>(i, n). Q (fstr kind) i n) ns)"
      by (rule filter_new_nodes)
    also have "\<dots> = (\<Sum>x\<leftarrow>ns. if Q (fstr kind) (fst x) (snd x) then 1 else 0)"
      by (simp add: length_filter_sum case_prod_unfold)
    finally show ?thesis
      using new(3) [of Q] g by simp
  qed
  ultimately show ?case
    using f others g by (intro conjI exI [of _ "?first @ new"]) simp_all
qed

lemma create_groups_ok:
  "\<forall>g \<in> set gs. cypher_name (fstr (fst g)) \<Longrightarrow>
   \<exists>d'. for_each (\<lambda>(kind, ns). create_nodes kind ns) gs d = Inr d'"
  by (induction gs arbitrary: d) (auto simp: create_nodes_def)

lemma create_index_fields:
  "nodes (create_index k d) = nodes d" "edges (create_index k d) = edges d"
  "diseases_collection (create_index k d) = diseases_collection d"
  "stdout (create_index k d) = stdout d"
  "set (indexes (create_index k d)) = insert k (set (indexes d))"
  by (auto simp: create_index_def)

lemma create_index_present: "k \<in> set (indexes d) \<Longrightarrow> create_index k d = d"
  by (simp add: create_index_def)

lemma create_indexes_fields:
  "nodes (create_indexes d) = nodes d" "edges (create_indexes d) = edges d"
  "diseases_collection (create_indexes d) = diseases_collection d"
  "stdout (create_indexes d) = stdout d @ [CreatedIndexes]"
  "set (indexes (create_indexes d)) =
     set (indexes d) \<union> {''Gene'', ''Compound'', ''Disease'', ''Anatomy''}"
  by (auto simp: create_indexes_def Let_def create_index_fields)

lemma create_indexes_idem: "indexes (create_indexes (create_indexes d)) = indexes (create_indexes d)"
proof -
  have "indexes (create_indexes d') = indexes d'"
    if "{''Gene'', ''Compound'', ''Disease'', ''Anatomy''} \<subseteq> set (indexes d')" for d'
    using that by (simp add: create_indexes_def Let_def create_index_present)
  then show ?thesis
    by (simp add: create_indexes_fields)
qed

lemma load_nodes_Inr:
  "load_nodes rows d = Inr d' \<Longrightarrow>
   \<exists>d1. for_each (\<lambda>(kind, ns). create_nodes kind ns) (nodes_by_kind rows) d = Inr d1 \<and>
        d' = create_indexes d1"
  by (auto simp: load_nodes_def split: sum.splits)

lemma load_nodes_count:
  assumes "load_nodes rows d = Inr d'"
  shows "\<exists>new. nodes d' = nodes d @ new \<and> length new = length rows \<and>
     (\<forall>Q. length (filter (\<lambda>x. Q (label x) (n_id x) (n_name x)) new) =
        length (filter (\<lambda>r. Q (fstr (node_kind r)) (fst (node_fields r)) (snd (node_fields r))) rows))"
proof -
  from load_nodes_Inr [OF assms] obtain d1 where
    d1: "for_each (\<lambda>(kind, ns). create_nodes kind ns) (nodes_by_kind rows) d = Inr d1"
    and d': "d' = create_indexes d1" by blast
  from create_groups_nodes [OF d1] obtain new where
    new: "nodes d1 = nodes d @ new"
      "length new = (\<Sum>(k, ns)\<leftarrow>nodes_by_kind rows. length ns)"
      "\<And>Q. length (filter (\<lambda>x. Q (label x) (n_id x) (n_name x)) new) =
           (\<Sum>(k, ns)\<leftarrow>nodes_by_kind rows. \<Sum>x\<leftarrow>ns. if Q (fstr k) (fst x) (snd x) then 1 else 0)"
    by blast
  have "length new = length rows"
    using new(2) sum_group_rows [where key = node_kind and val = node_fields and rows = rows and f = "\<lambda>k x. 1"]
    by (simp add: nodes_by_kind_def sum_list_triv)
  moreover have "length (filter (\<lambda>x. Q (label x) (n_id x) (n_name x)) new) =
        length (filter (\<lambda>r. Q (fstr (node_kind r)) (fst (node_fields r)) (snd (node_fields r))) rows)" for Q
    using new(3) [of Q]
      sum_group_rows [where key = node_kind and val = node_fields and rows = rows
        and f = "\<lambda>k x. if Q (fstr k) (fst x) (snd x) then 1 else 0"]
    by (simp add: nodes_by_kind_def length_filter_sum)
  ultimately show ?thesis
    using new(1) d' by (simp add: create_indexes_fields)
qed

lemma load_nodes_ok:
  assumes "\<forall>r \<in> set rows. cypher_name (fstr (node_kind r))"
  shows "\<exists>d'. load_nodes rows d = Inr d'"
proof -
  have "\<forall>g \<in> set (nodes_by_kind rows). cypher_name (fstr (fst g))"
    using assms by (auto simp: nodes_by_kind_def group_rows_eq set_collect_distinct)
  from create_groups_ok [OF this, of d] show ?thesis
    by (auto simp: load_nodes_def)
qed

lemmas load_nodes_eval =
  load_nodes_def nodes_by_kind_def group_rows_def node_kind_def node_fields_def
  node_row_def py_or_def create_nodes_def cypher_name_def empty_db_def create_indexes_def
  create_index_def

lemma load_flu: "load_nodes [node_row ''D1'' ''Flu'' ''Disease''] empty_db = Inr flu_db"
  by (simp add: load_nodes_eval flu_db_def flu_def)

text \<open>
  Claim C7, as the code has it.  When every submitted record has the same kind, and the
  kind is a plain name (the statement splices it unquoted after \<^verbatim>\<open>n:\<close>), loading
  succeeds and adds exactly as many nodes of that kind as there are records: a store
  without nodes of the kind holds exactly \<open>N\<close> of them afterwards.  The same holds for
  the records submitted in any other order.
\<close>

theorem load_nodes_yields_N:
  assumes kind: "\<forall>r \<in> set rows. node_kind r = kind"
    and ok: "cypher_name (fstr kind)"
    and perm: "mset rows' = mset rows"
  shows "\<exists>d1 d2. load_nodes rows d = Inr d1 \<and> load_nodes rows' d = Inr d2 \<and>
     length (filter (\<lambda>n. label n = fstr kind) (nodes d1)) =
       length (filter (\<lambda>n. label n = fstr kind) (nodes d)) + length rows \<and>
     length (filter (\<lambda>n. label n = fstr kind) (nodes d2)) =
       length (filter (\<lambda>n. label n = fstr kind) (nodes d)) + length rows"
proof -
  have count: "\<exists>d1. load_nodes rs d = Inr d1 \<and>
     length (filter (\<lambda>n. label n = fstr kind) (nodes d1)) =
       length (filter (\<lambda>n. label n = fstr kind) (nodes d)) + length rs"
    if k: "\<forall>r \<in> set rs. node_kind r = kind" for rs
  proof -
    from k ok have "\<forall>r \<in> set rs. cypher_name (fstr (node_kind r))" by simp
    from load_nodes_ok [OF this] obtain d1 where d1: "load_nodes rs d = Inr d1" by blast
    from load_nodes_count [OF d1] obtain new where
      new: "nodes d1 = nodes d @ new"
      "\<And>Q. length (filter (\<lambda>x. Q (label x) (n_id x) (n_name x)) new) =
        length (filter (\<lambda>r. Q (fstr (node_kind r)) (fst (node_fields r)) (snd (node_fields r))) rs)"
      by blast
    have "filter (\<lambda>r. fstr (node_kind r) = fstr kind) rs = rs"
      using k by (simp add: filter_id_conv)
    with new(2) [of "\<lambda>l i n. l = fstr kind"] new(1) d1 show ?thesis by simp
  qed
  from perm have "set rows' = set rows" by (rule mset_eq_setD)
  with kind have kind': "\<forall>r \<in> set rows'. node_kind r = kind" by simp
  from perm have "length rows' = length rows" by (rule mset_eq_length)
  with count [OF kind] count [OF kind'] show ?thesis by auto
qed

theorem load_nodes_yields_N_witness:
  "\<exists>d1 d2.
     load_nodes [node_row ''G1'' ''GeneA'' ''Gene'', node_row ''G2'' ''GeneB'' ''Gene''] flu_db = Inr d1 \<and>
     load_nodes [node_row ''G2'' ''GeneB'' ''Gene'', node_row ''G1'' ''GeneA'' ''Gene''] flu_db = Inr d2 \<and>
     length (filter (\<lambda>n. label n = ''Gene'') (nodes d1)) = 2 \<and>
     length (filter (\<lambda>n. label n = ''Gene'') (nodes d2)) = 2"
proof -
  let ?rows = "[node_row ''G1'' ''GeneA'' ''Gene'', node_row ''G2'' ''GeneB'' ''Gene'']"
  let ?rows' = "[node_row ''G2'' ''GeneB'' ''Gene'', node_row ''G1'' ''GeneA'' ''Gene'']"
  have kind: "\<forall>r \<in> set ?rows. node_kind r = Some ''Gene''"
    by (simp add: node_kind_def node_row_def py_or_def)
  have ok: "cypher_name (fstr (Some ''Gene''))"
    by (simp add: cypher_name_def)
  have perm: "mset ?rows' = mset ?rows"
    by (simp add: add_mset_commute)
  have none: "filter (\<lambda>n. label n = ''Gene'') (nodes flu_db) = []"
    by (simp add: flu_db_def flu_def)
  from load_nodes_yields_N [OF kind ok perm, of flu_db] show ?thesis
    using none by (simp add: numeral_2_eq_2)
qed

text \<open>Claim C7 as stated fails: the Hetionet kind Biological Process has a space, the
  statement built from it is not Cypher, and the load of one such record raises.\<close>

theorem kind_with_space_counterexample:
  "node_kind (node_row ''GO:0006915'' ''apoptotic process'' ''Biological Process'') =
     Some ''Biological Process'' \<and>
   load_nodes [node_row ''GO:0006915'' ''apoptotic process'' ''Biological Process''] empty_db =
     Inl CypherSyntaxError"
  by (simp add: load_nodes_eval)

text \<open>
  Claim C6, as the code has it.  \<open>load_nodes\<close> creates a node for every record and
  leaves the stored nodes as they are: the number of nodes with a given id afterwards is
  the number before plus the number of submitted records with that id.  A record whose
  id is stored already adds a second node with that id.
\<close>

theorem load_nodes_appends:
  assumes "load_nodes rows d = Inr d'"
  shows "(\<exists>new. nodes d' = nodes d @ new \<and> length new = length rows) \<and>
    (\<forall>i. length (filter (\<lambda>n. n_id n = i) (nodes d')) =
       length (filter (\<lambda>n. n_id n = i) (nodes d)) +
       length (filter (\<lambda>r. fst (node_fields r) = i) rows))"
proof -
  from load_nodes_count [OF assms] obtain new where
    new: "nodes d' = nodes d @ new" "length new = length rows"
      "\<And>Q. length (filter (\<lambda>x. Q (label x) (n_id x) (n_name x)) new) =
        length (filter (\<lambda>r. Q (fstr (node_kind r)) (fst (node_fields r)) (snd (node_fields r))) rows)"
    by blast
  show ?thesis
    using new(1,2) new(3) [of "\<lambda>l j n. j = i" for i] by auto
qed

theorem load_nodes_appends_witness:
  "\<exists>d'. load_nodes [node_row ''D1'' ''Influenza'' ''Disease''] flu_db = Inr d' \<and>
     length (filter (\<lambda>n. n_id n = Some ''D1'') (nodes d')) = 2"
proof -
  obtain d' where d': "load_nodes [node_row ''D1'' ''Influenza'' ''Disease''] flu_db = Inr d'"
    by (simp add: load_nodes_eval flu_db_def flu_def)
  have "fst (node_fields (node_row ''D1'' ''Influenza'' ''Disease'')) = Some ''D1''"
    by (simp add: node_fields_def node_row_def py_or_def)
  with load_nodes_appends [OF d'] have
    "length (filter (\<lambda>n. n_id n = Some ''D1'') (nodes d')) = 2"
    by (simp add: flu_db_def flu_def)
  with d' show ?thesis by blast
qed

text \<open>Claim C6 as stated fails: loading a record with the id of the stored disease
  leaves two nodes with that id, the old name next to the new one.\<close>

theorem second_node_counterexample:
  "map_sum id (map n_id \<circ> nodes) (load_nodes [node_row ''D1'' ''Influenza'' ''Disease''] flu_db) =
     Inr [Some ''D1'', Some ''D1''] \<and>
   map_sum id (map n_name \<circ> nodes) (load_nodes [node_row ''D1'' ''Influenza'' ''Disease''] flu_db) =
     Inr [Some ''Flu'', Some ''Influenza'']"
  by (simp add: load_nodes_eval flu_db_def flu_def)

text \<open>
  Claim C9, as the code has it.  After a successful load the indexed kinds are those
  indexed before and the four kinds Gene, Compound, Disease and Anatomy, whatever kinds
  the records had.  Creating the indexes again changes no index, and creating an index
  that exists is a no-op.
\<close>

theorem load_nodes_indexes:
  assumes "load_nodes rows d = Inr d'"
  shows "set (indexes d') = set (indexes d) \<union> {''Gene'', ''Compound'', ''Disease'', ''Anatomy''} \<and>
     indexes (create_indexes d') = indexes d' \<and>
     (\<forall>k \<in> set (indexes d'). create_index k d' = d')"
proof -
  from load_nodes_Inr [OF assms] obtain d1 where
    d1: "for_each (\<lambda>(kind, ns). create_nodes kind ns) (nodes_by_kind rows) d = Inr d1"
    and d': "d' = create_indexes d1" by blast
  from create_groups_nodes [OF d1] have "indexes d1 = indexes d" by blast
  then show ?thesis
    using d' by (simp add: create_indexes_fields create_indexes_idem create_index_present)
qed

theorem load_nodes_indexes_witness:
  "\<exists>d'. load_nodes [node_row ''P1'' ''Glycolysis'' ''Pathway''] empty_db = Inr d' \<and>
     set (indexes d') = {''Gene'', ''Compound'', ''Disease'', ''Anatomy''} \<and>
     indexes (create_indexes d') = indexes d' \<and>
     create_index ''Gene'' d' = d'"
proof -
  obtain d' where d': "load_nodes [node_row ''P1'' ''Glycolysis'' ''Pathway''] empty_db = Inr d'"
    by (simp add: load_nodes_eval)
  from load_nodes_indexes [OF d'] d' show ?thesis
    by (auto simp: empty_db_def)
qed

text \<open>Claim C9 as stated fails: a Pathway node is loaded, and no index for the kind
  Pathway is created.\<close>

theorem pathway_index_counterexample:
  "map_sum id indexes (load_nodes [node_row ''P1'' ''Glycolysis'' ''Pathway''] empty_db) =
     Inr [''Gene'', ''Compound'', ''Disease'', ''Anatomy''] \<and>
   map_sum id (map label \<circ> nodes) (load_nodes [node_row ''P1'' ''Glycolysis'' ''Pathway''] empty_db) =
     Inr [''Pathway''] \<and>
   ''Pathway'' \<notin> set [''Gene'', ''Compound'', ''Disease'', ''Anatomy'']"
  by (simp add: load_nodes_eval)

section \<open>Loading edges\<close>

lemma match_id_nodes: "nodes d1 = nodes d \<Longrightarrow> match_id d1 v = match_id d v"
  by (cases v) (simp_all add: match_id_def)

lemma edges_for_nodes: "nodes d1 = nodes d \<Longrightarrow> edges_for d1 rt e = edges_for d rt e"
  using match_id_nodes [of d1 d] by (simp add: edges_for_def)

lemma length_edges_for:
  "length (edges_for d rt e) = length (match_id d (fst e)) * length (match_id d (snd e))"
proof -
  have "length (concat (map (\<lambda>a. map (f a) ys) xs)) = length xs * length ys" for f :: "'a \<Rightarrow> 'b \<Rightarrow> 'c" and xs ys
    by (induction xs) simp_all
  then show ?thesis by (simp add: edges_for_def)
qed

lemma length_concat_edges_for:
  "length (concat (map (edges_for d rt) es)) =
     (\<Sum>e\<leftarrow>es. length (match_id d (fst e)) * length (match_id d (snd e)))"
  by (induction es) (simp_all add: length_edges_for)

lemma create_relationships_Inr:
  "create_relationships metaedge es d = Inr d' \<Longrightarrow>
     \<exists>rt. parse_metaedge metaedge = Inr rt \<and> cypher_name rt \<and>
       nodes d' = nodes d \<and>
       edges d' = edges d @ concat (map (edges_for d rt) es) \<and>
       indexes d' = indexes d \<and> diseases_collection d' = diseases_collection d \<and>
       stdout d' = stdout d @ [CreatedRelationships (length es) rt]"
  by (auto simp: create_relationships_def split: sum.splits if_splits)

lemma create_groups_edges:
  "for_each (\<lambda>(metaedge, es). create_relationships metaedge es) gs d = Inr d' \<Longrightarrow>
     nodes d' = nodes d \<and> indexes d' = indexes d \<and>
     diseases_collection d' = diseases_collection d \<and>
     (\<exists>new. edges d' = edges d @ new \<and>
        length new = (\<Sum>(k, es)\<leftarrow>gs. \<Sum>e\<leftarrow>es.
                        length (match_id d (fst e)) * length (match_id d (snd e)))) \<and>
     (\<exists>reps. stdout d' = stdout d @ reps \<and>
        list_all2 (\<lambda>g rep. \<exists>rt. parse_metaedge (fst g) = Inr rt \<and>
                      rep = CreatedRelationships (length (snd g)) rt) gs reps)"
proof (induction gs arbitrary: d)
  case Nil
  then show ?case by simp
next
  case (Cons g gs)
  obtain m es where g: "g = (m, es)" by (cases g)
  from Cons.prems g obtain d1 where
    first: "create_relationships m es d = Inr d1" and
    rest: "for_each (\<lambda>(metaedge, es). create_relationships metaedge es) gs d1 = Inr d'"
    by (auto split: sum.splits)
  from create_relationships_Inr [OF first] obtain rt where
    rt: "parse_metaedge m = Inr rt" and
    f: "nodes d1 = nodes d" "edges d1 = edges d @ concat (map (edges_for d rt) es)"
      "indexes d1 = indexes d" "diseases_collection d1 = diseases_collection d"
      "stdout d1 = stdout d @ [CreatedRelationships (length es) rt]"
    by blast
  from Cons.IH [OF rest] obtain new reps where
    r: "nodes d' = nodes d1" "indexes d' = indexes d1"
      "diseases_collection d' = diseases_collection d1"
      "edges d' = edges d1 @ new"
      "length new = (\<Sum>(k, es)\<leftarrow>gs. \<Sum>e\<leftarrow>es.
                        length (match_id d1 (fst e)) * length (match_id d1 (snd e)))"
      "stdout d' = stdout d1 @ reps"
      "list_all2 (\<lambda>g rep. \<exists>rt. parse_metaedge (fst g) = Inr rt \<and>
                      rep = CreatedRelationships (length (snd g)) rt) gs reps"
    by blast
  let ?new = "concat (map (edges_for d rt) es) @ new"
  let ?reps = "CreatedRelationships (length es) rt # reps"
  have "edges d' = edges d @ ?new"
    using f r by simp
  moreover have "length ?new = (\<Sum>(k, es)\<leftarrow>g # gs. \<Sum>e\<leftarrow>es.
                        length (match_id d (fst e)) * length (match_id d (snd e)))"
    using r(5) g by (simp add: length_concat_edges_for match_id_nodes [OF f(1)])
  moreover have "stdout d' = stdout d @ ?reps"
    using f r by simp
  moreover have "list_all2 (\<lambda>g rep. \<exists>rt. parse_metaedge (fst g) = Inr rt \<and>
                      rep = CreatedRelationships (length (snd g)) rt) (g # gs) ?reps"
    using r(7) rt g by simp
  ultimately show ?case
    using f r by (intro conjI exI [of _ ?new] exI [of _ ?reps]) simp_all
qed

lemma create_groups_edges_ok:
  "\<forall>g \<in> set gs. \<exists>rt. parse_metaedge (fst g) = Inr rt \<and> cypher_name rt \<Longrightarrow>
   \<exists>d'. for_each (\<lambda>(metaedge, es). create_relationships metaedge es) gs d = Inr d'"
  by (induction gs arbitrary: d) (auto simp: create_relationships_def)

lemma load_edges_ok:
  assumes "\<forall>r \<in> set rows. \<exists>rt. parse_metaedge (edge_metaedge r) = Inr rt \<and> cypher_name rt"
  shows "\<exists>d'. load_edges rows d = Inr d'"
proof -
  have "\<forall>g \<in> set (edges_by_type rows). \<exists>rt. parse_metaedge (fst g) = Inr rt \<and> cypher_name rt"
    using assms by (auto simp: edges_by_type_def group_rows_eq set_collect_distinct)
  from create_groups_edges_ok [OF this, of d] show ?thesis
    by (simp add: load_edges_def)
qed

lemma load_edges_Inr:
  assumes "load_edges rows d = Inr d'"
  shows "nodes d' = nodes d \<and> indexes d' = indexes d \<and>
     diseases_collection d' = diseases_collection d \<and>
     (\<exists>new. edges d' = edges d @ new \<and>
        length new = (\<Sum>r\<leftarrow>rows. length (match_id d (fst (edge_fields r))) *
                                  length (match_id d (snd (edge_fields r)))))"
proof -
  from assms have "for_each (\<lambda>(metaedge, es). create_relationships metaedge es)
      (edges_by_type rows) d = Inr d'"
    by (simp add: load_edges_def)
  from create_groups_edges [OF this] show ?thesis
    using sum_group_rows [where key = edge_metaedge and val = edge_fields and rows = rows
        and f = "\<lambda>k e. length (match_id d (fst e)) * length (match_id d (snd e))"]
    by (simp add: edges_by_type_def)
qed

lemma sum_unit_terms:
  fixes f :: "'a \<Rightarrow> nat"
  assumes "\<forall>x \<in> set xs. f x \<le> 1"
  shows "sum_list (map f xs) \<le> length xs \<and>
     (sum_list (map f xs) < length xs \<longleftrightarrow> (\<exists>x \<in> set xs. f x = 0))"
  using assms
proof (induction xs)
  case Nil
  show ?case by simp
next
  case (Cons x xs)
  then have "f x = 0 \<or> f x = 1" by force
  with Cons show ?case by auto
qed

lemmas load_edges_eval =
  load_edges_def edges_by_type_def group_rows_def edge_metaedge_def edge_fields_def
  edge_row_def py_or_def create_relationships_def parse_metaedge_def mapping_def
  strip_markers_def cypher_name_def edges_for_def match_id_def

lemmas example_nodes = flu_def gene_a_def drug_a_def drug_b_def lung_def

lemma load_scenario_nodes: "load_nodes scenario_nodes empty_db = Inr nodes_db"
  by (simp add: load_nodes_eval scenario_nodes_def nodes_db_def example_nodes)

lemma load_scenario_edges: "load_edges scenario_edges nodes_db = Inr scenario_db"
  by (simp add: load_edges_eval scenario_edges_def scenario_db_def nodes_db_def example_nodes)

lemma load_twins:
  "load_nodes [node_row ''D1'' ''Flu'' ''Disease'', node_row ''D1'' ''Influenza'' ''Disease'',
     node_row ''G1'' ''GeneA'' ''Gene''] empty_db = Inr twin_db"
  by (simp add: load_nodes_eval twin_db_def flu_def)

text \<open>
  Claim C3, as the code has it.  When every record has a metaedge code that parses to a
  name Cypher accepts, \<open>load_edges\<close> succeeds whatever the endpoints are.  The number of
  relationships it creates is the sum, over the records, of the number of stored nodes
  with the source id times the number with the target id; a record with an endpoint that
  no stored node has creates none.  When no two stored nodes share an id, the number
  created is at most the number of records, and smaller exactly when some record has a
  missing endpoint.
\<close>

theorem load_edges_missing_endpoint:
  assumes codes: "\<forall>r \<in> set rows. \<exists>rt. parse_metaedge (edge_metaedge r) = Inr rt \<and> cypher_name rt"
  shows "\<exists>d' new. load_edges rows d = Inr d' \<and> edges d' = edges d @ new \<and>
     length new = (\<Sum>r\<leftarrow>rows. length (match_id d (fst (edge_fields r))) *
                               length (match_id d (snd (edge_fields r)))) \<and>
     (\<forall>r \<in> set rows.
        match_id d (fst (edge_fields r)) = [] \<or> match_id d (snd (edge_fields r)) = [] \<longrightarrow>
        (\<forall>rt. edges_for d rt (edge_fields r) = [])) \<and>
     ((\<forall>s. length (match_id d (Some s)) \<le> 1) \<longrightarrow>
        length new \<le> length rows \<and>
        (length new < length rows \<longleftrightarrow>
           (\<exists>r \<in> set rows. match_id d (fst (edge_fields r)) = [] \<or>
                            match_id d (snd (edge_fields r)) = [])))"
proof -
  from load_edges_ok [OF codes] obtain d' where d': "load_edges rows d = Inr d'" by blast
  let ?f = "\<lambda>r. length (match_id d (fst (edge_fields r))) * length (match_id d (snd (edge_fields r)))"
  from load_edges_Inr [OF d'] obtain new where
    new: "edges d' = edges d @ new" "length new = sum_list (map ?f rows)"
    by blast
  have zero: "edges_for d rt (edge_fields r) = []"
    if "match_id d (fst (edge_fields r)) = [] \<or> match_id d (snd (edge_fields r)) = []" for r rt
    using that length_edges_for [of d rt "edge_fields r"] by auto
  have bound: "length new \<le> length rows \<and>
        (length new < length rows \<longleftrightarrow>
           (\<exists>r \<in> set rows. match_id d (fst (edge_fields r)) = [] \<or>
                            match_id d (snd (edge_fields r)) = []))"
    if unique: "\<forall>s. length (match_id d (Some s)) \<le> 1"
  proof -
    have le1: "length (match_id d v) \<le> 1" for v
      using unique by (cases v) (simp_all add: match_id_def)
    have "\<forall>r \<in> set rows. ?f r \<le> 1"
    proof
      fix r
      have "?f r \<le> 1 * 1"
        by (intro mult_le_mono le1)
      then show "?f r \<le> 1" by simp
    qed
    from sum_unit_terms [OF this] new(2) show ?thesis
      by simp
  qed
  show ?thesis
    using d' new zero bound by (intro exI [of _ d'] exI [of _ new]) blast
qed

theorem load_edges_missing_endpoint_witness:
  "\<exists>d' new.
     load_edges [edge_row ''C1'' ''CtD'' ''D1'', edge_row ''C9'' ''CtD'' ''D1''] nodes_db = Inr d' \<and>
     edges d' = edges nodes_db @ new \<and> length new = 1 \<and>
     edges_for nodes_db ''TREATS'' (edge_fields (edge_row ''C9'' ''CtD'' ''D1'')) = [] \<and>
     length new < length [edge_row ''C1'' ''CtD'' ''D1'', edge_row ''C9'' ''CtD'' ''D1'']"
proof -
  let ?rows = "[edge_row ''C1'' ''CtD'' ''D1'', edge_row ''C9'' ''CtD'' ''D1'']"
  have codes: "\<forall>r \<in> set ?rows. \<exists>rt. parse_metaedge (edge_metaedge r) = Inr rt \<and> cypher_name rt"
    by (simp add: edge_metaedge_def edge_row_def py_or_def parse_metaedge_def mapping_def
        strip_markers_def cypher_name_def)
  have unique: "\<forall>s. length (match_id nodes_db (Some s)) \<le> 1"
    by (auto simp: match_id_def nodes_db_def example_nodes)
  have missing: "match_id nodes_db (fst (edge_fields (edge_row ''C9'' ''CtD'' ''D1''))) = []"
    by (simp add: match_id_def nodes_db_def example_nodes edge_fields_def edge_row_def py_or_def)
  have count: "(\<Sum>r\<leftarrow>?rows. length (match_id nodes_db (fst (edge_fields r))) *
                               length (match_id nodes_db (snd (edge_fields r)))) = 1"
    by (simp add: match_id_def nodes_db_def example_nodes edge_fields_def edge_row_def py_or_def)
  from load_edges_missing_endpoint [OF codes, of nodes_db] obtain d' new where
    r: "load_edges ?rows nodes_db = Inr d'" "edges d' = edges nodes_db @ new"
      "length new = (\<Sum>r\<leftarrow>?rows. length (match_id nodes_db (fst (edge_fields r))) *
                               length (match_id nodes_db (snd (edge_fields r))))"
      "\<forall>r \<in> set ?rows.
        match_id nodes_db (fst (edge_fields r)) = [] \<or> match_id nodes_db (snd (edge_fields r)) = [] \<longrightarrow>
        (\<forall>rt. edges_for nodes_db rt (edge_fields r) = [])"
      "(\<forall>s. length (match_id nodes_db (Some s)) \<le> 1) \<longrightarrow>
        length new \<le> length ?rows \<and>
        (length new < length ?rows \<longleftrightarrow>
           (\<exists>r \<in> set ?rows. match_id nodes_db (fst (edge_fields r)) = [] \<or>
                            match_id nodes_db (snd (edge_fields r)) = []))"
    by blast
  from r(4) missing have "edges_for nodes_db ''TREATS'' (edge_fields (edge_row ''C9'' ''CtD'' ''D1'')) = []"
    by simp
  moreover from r(5) unique missing have "length new < length ?rows"
    by simp
  moreover from r(3) count have "length new = 1" by simp
  ultimately show ?thesis
    using r(1,2) by blast
qed

text \<open>Claim C3 as stated fails: in a store that holds the id of the disease twice,
  one record creates two relationships.\<close>

theorem twin_edges_counterexample:
  "load_nodes [node_row ''D1'' ''Flu'' ''Disease'', node_row ''D1'' ''Influenza'' ''Disease'',
     node_row ''G1'' ''GeneA'' ''Gene''] empty_db = Inr twin_db \<and>
   edges twin_db = [] \<and>
   map_sum id (length \<circ> edges) (load_edges [edge_row ''D1'' ''DaG'' ''G1''] twin_db) = Inr 2 \<and>
   \<not> 2 \<le> length [edge_row ''D1'' ''DaG'' ''G1'']"
  by (simp add: load_twins) (simp add: load_edges_eval twin_db_def flu_def)

text \<open>
  Claim C8.  After a successful \<open>load_edges\<close> the lines printed are, for each metaedge
  code in the order of first appearance, the number of submitted records with that code
  and the relationship type of the code.  The stored nodes play no part in it.
\<close>

theorem load_edges_reports_submitted:
  assumes "load_edges rows d = Inr d'"
  shows "\<exists>reps. stdout d' = stdout d @ reps \<and>
     list_all2 (\<lambda>metaedge rep. \<exists>rt. parse_metaedge metaedge = Inr rt \<and>
          rep = CreatedRelationships (length (filter (\<lambda>r. edge_metaedge r = metaedge) rows)) rt)
       (collect_distinct (map edge_metaedge rows)) reps"
proof -
  from assms have "for_each (\<lambda>(metaedge, es). create_relationships metaedge es)
      (edges_by_type rows) d = Inr d'"
    by (simp add: load_edges_def)
  from create_groups_edges [OF this] obtain reps where
    reps: "stdout d' = stdout d @ reps"
      "list_all2 (\<lambda>g rep. \<exists>rt. parse_metaedge (fst g) = Inr rt \<and>
                      rep = CreatedRelationships (length (snd g)) rt) (edges_by_type rows) reps"
    by blast
  from reps(2) have "list_all2 (\<lambda>metaedge rep. \<exists>rt. parse_metaedge metaedge = Inr rt \<and>
          rep = CreatedRelationships (length (filter (\<lambda>r. edge_metaedge r = metaedge) rows)) rt)
       (collect_distinct (map edge_metaedge rows)) reps"
    by (simp add: edges_by_type_def group_rows_eq list_all2_map1)
  with reps(1) show ?thesis by blast
qed

theorem load_edges_reports_submitted_witness:
  "\<exists>d'. load_edges [edge_row ''C1'' ''CtD'' ''D1'', edge_row ''C9'' ''CtD'' ''D1''] nodes_db = Inr d' \<and>
     stdout d' = stdout nodes_db @ [CreatedRelationships 2 ''TREATS''] \<and>
     length (edges d') = 1"
proof -
  let ?rows = "[edge_row ''C1'' ''CtD'' ''D1'', edge_row ''C9'' ''CtD'' ''D1'']"
  obtain d' where d': "load_edges ?rows nodes_db = Inr d'" and n: "length (edges d') = 1"
    by (simp add: load_edges_eval nodes_db_def example_nodes)
  have keys: "collect_distinct (map edge_metaedge ?rows) = [Some ''CtD'']"
    by (simp add: collect_distinct_def edge_metaedge_def edge_row_def py_or_def)
  have cnt: "edge_metaedge (edge_row ''C1'' ''CtD'' ''D1'') = Some ''CtD''"
    "edge_metaedge (edge_row ''C9'' ''CtD'' ''D1'') = Some ''CtD''"
    by (simp_all add: edge_metaedge_def edge_row_def py_or_def)
  have rt: "parse_metaedge (Some ''CtD'') = Inr ''TREATS''"
    by (simp add: parse_metaedge_def mapping_def strip_markers_def)
  from load_edges_reports_submitted [OF d'] obtain reps where
    reps: "stdout d' = stdout nodes_db @ reps"
      "list_all2 (\<lambda>metaedge rep. \<exists>rt. parse_metaedge metaedge = Inr rt \<and>
          rep = CreatedRelationships (length (filter (\<lambda>r. edge_metaedge r = metaedge) ?rows)) rt)
       (collect_distinct (map edge_metaedge ?rows)) reps"
    by blast
  from reps(2) have "reps = [CreatedRelationships 2 ''TREATS'']"
    unfolding keys by (auto simp: list_all2_Cons1 cnt rt)
  with reps(1) d' n show ?thesis by blast
qed

section \<open>The treatment query\<close>

lemma treatment_rows_no_sites:
  assumes "\<forall>dn \<in> set (match_disease d v). localizations d dn = []"
  shows "treatment_rows d v = []"
  using assms by (simp add: treatment_rows_def)

lemmas query_eval =
  match_disease_def match_id_def optional_match_def treating_def gene_links_def
  localizations_def drug_map_def gene_map_def location_map_def group_rows_def
  collect_distinct_def scenario_db_def nodes_db_def example_nodes

text \<open>
  Claim C10.  When no disease node has the given id, or no disease node with that id
  has a \<^verbatim>\<open>LOCALIZES_TO\<close> relationship to an anatomy, query 2 returns a count of 0 and
  an empty list of treatments.  The two cases give the same result, and the model of
  query 2 has no exception to raise.
\<close>

theorem query2_no_sites:
  assumes "match_disease d (Some disease_id) = [] \<or>
     (\<forall>dn \<in> set (match_disease d (Some disease_id)). localizations d dn = [])"
  shows "query2_find_treatments d disease_id ms =
     \<lparr>q2_disease_id = disease_id, potential_treatments_count = 0, treatments = [],
      q2_query_time_ms = ms\<rparr>"
proof -
  from assms have "\<forall>dn \<in> set (match_disease d (Some disease_id)). localizations d dn = []"
    by auto
  then have "treatment_rows d (Some disease_id) = []"
    by (rule treatment_rows_no_sites)
  then have "treatment_query d (Some disease_id) = []"
    by (simp add: treatment_query_def group_rows_def order_by_name_def)
  then show ?thesis
    by (simp add: query2_find_treatments_def)
qed

theorem query2_no_sites_witness:
  "query2_find_treatments scenario_db ''D9'' 7 =
     \<lparr>q2_disease_id = ''D9'', potential_treatments_count = 0, treatments = [],
      q2_query_time_ms = 7\<rparr> \<and>
   query2_find_treatments nodes_db ''D1'' 7 =
     \<lparr>q2_disease_id = ''D1'', potential_treatments_count = 0, treatments = [],
      q2_query_time_ms = 7\<rparr> \<and>
   match_disease nodes_db (Some ''D1'') = [flu]"
proof -
  have absent: "match_disease scenario_db (Some ''D9'') = []"
    by (simp add: query_eval)
  have present: "match_disease nodes_db (Some ''D1'') = [flu]"
    by (simp add: query_eval)
  have bare: "\<forall>dn \<in> set (match_disease nodes_db (Some ''D1'')). localizations nodes_db dn = []"
    by (simp add: localizations_def nodes_db_def)
  show ?thesis
    using query2_no_sites [of scenario_db "''D9''" 7] query2_no_sites [of nodes_db "''D1''" 7]
      absent present bare by simp
qed

text \<open>
  Claim C2 fails on the code.  In the example DrugA treats the disease and upregulates
  a gene that the disease's anatomy downregulates; query 2 returns DrugA, before DrugB.
  The exclusion of the \<^verbatim>\<open>WHERE\<close> clause reaches the alternative "compound down,
  anatomy up" only.
\<close>

theorem query2_returns_treating_compound:
  "load_nodes scenario_nodes empty_db = Inr nodes_db \<and>
   load_edges scenario_edges nodes_db = Inr scenario_db \<and>
   treats scenario_db drug_a flu \<and>
   match_disease scenario_db (Some ''D1'') = [flu] \<and>
   map compound_id (treatments (query2_find_treatments scenario_db ''D1'' 0)) =
     [Some ''C1'', Some ''C2'']"
proof (intro conjI)
  show "load_nodes scenario_nodes empty_db = Inr nodes_db"
    by (rule load_scenario_nodes)
  show "load_edges scenario_edges nodes_db = Inr scenario_db"
    by (rule load_scenario_edges)
  show "treats scenario_db drug_a flu"
    by (simp add: treats_def scenario_db_def)
  show "match_disease scenario_db (Some ''D1'') = [flu]"
    by (simp add: query_eval)
  show "map compound_id (treatments (query2_find_treatments scenario_db ''D1'' 0)) =
     [Some ''C1'', Some ''C2'']"
    by (simp add: query2_find_treatments_def treatment_query_def treatment_rows_def
        where_clause_def treats_def regulates_def order_by_name_def query_eval)
qed

section \<open>The disease query\<close>

text \<open>
  Claim C5 fails on the code in the direct mode.  For an id that no disease node has,
  the statement returns no record, \<^verbatim>\<open>single()\<close> is \<^verbatim>\<open>None\<close>, and subscripting it
  raises TypeError.  With the cache, an id without a document gives \<^verbatim>\<open>None\<close>, the
  "not found" result.
\<close>

theorem query1_unknown_disease:
  assumes "match_disease d (Some disease_id) = []"
  shows "query1_disease_info d disease_id False ms = Inl TypeError \<and>
     (diseases_collection d (Some disease_id) = None \<longrightarrow>
        query1_disease_info d disease_id True ms = Inr None)"
proof -
  from assms have "disease_rows d (Some disease_id) = []"
    by (simp add: disease_rows_def)
  then have "disease_query d (Some disease_id) = []"
    by (simp add: disease_query_def group_rows_def)
  then show ?thesis
    by (simp add: query1_disease_info_def)
qed

theorem query1_unknown_disease_witness:
  "query1_disease_info scenario_db ''D9'' False 7 = Inl TypeError \<and>
   query1_disease_info scenario_db ''D9'' True 7 = Inr None"
proof -
  have absent: "match_disease scenario_db (Some ''D9'') = []"
    by (simp add: query_eval)
  have miss: "diseases_collection scenario_db (Some ''D9'') = None"
    by (simp add: scenario_db_def nodes_db_def)
  from query1_unknown_disease [OF absent, of 7] miss show ?thesis by simp
qed

section \<open>The disease cache\<close>

lemma disease_query_graph:
  assumes "nodes d1 = nodes d" and "edges d1 = edges d"
  shows "disease_query d1 v = disease_query d v"
proof -
  have "match_disease d1 v = match_disease d v"
    using match_id_nodes [OF assms(1)] by (simp add: match_disease_def)
  moreover have "treating d1 = treating d" "gene_links d1 = gene_links d"
    "localizations d1 = localizations d"
    using assms(2) by (simp_all add: treating_def gene_links_def localizations_def fun_eq_iff)
  ultimately show ?thesis
    by (simp add: disease_query_def disease_rows_def)
qed

lemma get_disease_info_graph:
  assumes "nodes d1 = nodes d" and "edges d1 = edges d"
  shows "get_disease_info_from_neo4j d1 v nm1 = get_disease_info_from_neo4j d v nm"
  by (simp add: get_disease_info_from_neo4j_def disease_query_graph [OF assms])

lemma cache_disease_Inr:
  assumes "cache_disease n d = Inr d'"
  shows "nodes d' = nodes d \<and> edges d' = edges d \<and>
     (\<exists>info. get_disease_info_from_neo4j d (n_id n) (n_name n) = Inr info \<and>
        diseases_collection d' = (diseases_collection d)(n_id n \<mapsto> info))"
  using assms by (auto simp: cache_disease_def split: sum.splits)

lemma cache_all_diseases:
  "for_each cache_disease ns d = Inr d' \<Longrightarrow>
     nodes d' = nodes d \<and> edges d' = edges d \<and>
     (\<forall>n \<in> set ns. \<exists>info. get_disease_info_from_neo4j d (n_id n) None = Inr info \<and>
        diseases_collection d' (n_id n) = Some info) \<and>
     (\<forall>k. k \<notin> n_id ` set ns \<longrightarrow> diseases_collection d' k = diseases_collection d k)"
proof (induction ns arbitrary: d)
  case Nil
  then show ?case by simp
next
  case (Cons n ns)
  from Cons.prems obtain d1 where
    first: "cache_disease n d = Inr d1" and rest: "for_each cache_disease ns d1 = Inr d'"
    by (auto split: sum.splits)
  from cache_disease_Inr [OF first] obtain info where
    g1: "nodes d1 = nodes d" "edges d1 = edges d" and
    info: "get_disease_info_from_neo4j d (n_id n) (n_name n) = Inr info"
      "diseases_collection d1 = (diseases_collection d)(n_id n \<mapsto> info)"
    by blast
  from Cons.IH [OF rest] have
    g2: "nodes d' = nodes d1" "edges d' = edges d1" and
    stored: "\<forall>m \<in> set ns. \<exists>info. get_disease_info_from_neo4j d1 (n_id m) None = Inr info \<and>
        diseases_collection d' (n_id m) = Some info" and
    kept: "\<forall>k. k \<notin> n_id ` set ns \<longrightarrow> diseases_collection d' k = diseases_collection d1 k"
    by blast+
  have same: "get_disease_info_from_neo4j d1 v nm1 = get_disease_info_from_neo4j d v nm" for v nm1 nm
    by (rule get_disease_info_graph [OF g1])
  have tail: "\<exists>info. get_disease_info_from_neo4j d (n_id m) None = Inr info \<and>
        diseases_collection d' (n_id m) = Some info" if "m \<in> set ns" for m
    using stored that same [of "n_id m" None None] by auto
  have head: "\<exists>info. get_disease_info_from_neo4j d (n_id n) None = Inr info \<and>
        diseases_collection d' (n_id n) = Some info"
  proof (cases "n_id n \<in> n_id ` set ns")
    case True
    then obtain m where "m \<in> set ns" "n_id m = n_id n" by auto
    with tail [of m] show ?thesis by simp
  next
    case False
    with kept info(2) have "diseases_collection d' (n_id n) = Some info" by simp
    moreover have "get_disease_info_from_neo4j d (n_id n) None = Inr info"
      using info(1) get_disease_info_graph [of d d "n_id n" None "n_name n"] by simp
    ultimately show ?thesis by blast
  qed
  have others: "diseases_collection d' k = diseases_collection d k"
    if "k \<notin> n_id ` set (n # ns)" for k
    using that kept info(2) by simp
  show ?case
    using g1 g2 head tail others by auto
qed

lemma match_disease_node:
  "match_disease d (Some i) \<noteq> [] \<Longrightarrow>
   \<exists>n \<in> set (filter (\<lambda>n. label n = ''Disease'') (nodes d)). n_id n = Some i"
proof -
  assume "match_disease d (Some i) \<noteq> []"
  then obtain n where "n \<in> set (match_disease d (Some i))"
    by (meson last_in_set)
  then show ?thesis
    by (auto simp: match_disease_def match_id_def)
qed

lemma disease_query_nonempty:
  assumes "match_disease d v \<noteq> []"
  shows "disease_query d v \<noteq> []"
proof -
  from assms obtain dn where dn: "dn \<in> set (match_disease d v)"
    by (meson last_in_set)
  have some: "\<exists>x. x \<in> set (optional_match xs)" for xs :: "edge list"
    by (cases xs) (auto simp: optional_match_def)
  obtain r gr l where "r \<in> set (optional_match (treating d dn))"
    "gr \<in> set (optional_match (gene_links d dn))" "l \<in> set (optional_match (localizations d dn))"
    using some by blast
  with dn have "(n_name dn, drug_map r, gene_map gr, location_map l) \<in> set (disease_rows d v)"
    by (auto simp: disease_rows_def)
  then have "set (map fst (disease_rows d v)) \<noteq> {}"
    by auto
  then have "collect_distinct (map fst (disease_rows d v)) \<noteq> []"
    by (metis set_collect_distinct set_empty)
  then show ?thesis
    by (simp add: disease_query_def group_rows_eq)
qed

lemma cache_all_ok:
  "\<forall>n \<in> set ns. match_disease d (n_id n) \<noteq> [] \<Longrightarrow> \<exists>d'. for_each cache_disease ns d = Inr d'"
proof (induction ns arbitrary: d)
  case Nil
  show ?case by simp
next
  case (Cons n ns)
  then have "disease_query d (n_id n) \<noteq> []"
    by (simp add: disease_query_nonempty)
  then obtain d1 where d1: "cache_disease n d = Inr d1"
    by (cases "disease_query d (n_id n)")
      (auto simp: cache_disease_def get_disease_info_from_neo4j_def)
  from cache_disease_Inr [OF d1] have "nodes d1 = nodes d" by simp
  then have "match_disease d1 v = match_disease d v" for v
    using match_id_nodes [of d1 d] by (simp add: match_disease_def)
  with Cons.prems have "\<forall>n \<in> set ns. match_disease d1 (n_id n) \<noteq> []" by simp
  from Cons.IH [OF this] d1 show ?case by simp
qed

lemma build_mongo_cache_ok:
  assumes "\<forall>n \<in> set (nodes d). label n = ''Disease'' \<longrightarrow> n_id n \<noteq> None"
  shows "\<exists>d'. build_mongo_cache d = Inr d'"
proof -
  have "\<forall>n \<in> set (filter (\<lambda>n. label n = ''Disease'') (nodes d)). match_disease d (n_id n) \<noteq> []"
  proof
    fix n assume n: "n \<in> set (filter (\<lambda>n. label n = ''Disease'') (nodes d))"
    with assms obtain s where "n_id n = Some s" by auto
    with n have "n \<in> set (match_disease d (n_id n))"
      by (simp add: match_disease_def match_id_def)
    then show "match_disease d (n_id n) \<noteq> []" by auto
  qed
  from cache_all_ok [OF this] show ?thesis
    by (simp add: build_mongo_cache_def)
qed

lemmas cache_eval =
  build_mongo_cache_def cache_disease_def get_disease_info_from_neo4j_def disease_query_def
  disease_rows_def query_eval

text \<open>The first example of the specification: the drugs of the disease, read
  directly.\<close>

lemma scenario_query1:
  "map_sum id (map_option drugs) (query1_disease_info scenario_db ''D1'' False 0) =
     Inr (Some [\<lparr>drug_id = Some ''C1'', drug_name = Some ''DrugA'', drug_type = Some ''TREATS''\<rparr>])"
  by (simp add: query1_disease_info_def disease_query_def disease_rows_def query_eval
      disease_info.extend_def)

lemma build_nodes_cache: "build_mongo_cache nodes_db = Inr cached_nodes_db"
  by (simp add: cache_eval cached_nodes_db_def flu_bare_doc_def)

lemma load_stale_edges: "load_edges scenario_edges cached_nodes_db = Inr stale_db"
  by (simp add: load_edges_eval scenario_edges_def scenario_db_def nodes_db_def example_nodes
      cached_nodes_db_def stale_db_def)

text \<open>
  Claim C1, as the code has it.  Let the cache be rebuilt from a store that holds a
  disease node with the given id, and let the nodes, the relationships and the cache be
  the same at the time of the read as the rebuild left them.  Then query 1 returns a
  document with the cache and a document without it, and the two agree on every key but
  the elapsed time and the data source.
\<close>

theorem cache_agrees_with_direct:
  assumes build: "build_mongo_cache d = Inr d'"
    and present: "match_disease d (Some disease_id) \<noteq> []"
    and unchanged: "nodes d'' = nodes d" "edges d'' = edges d"
      "diseases_collection d'' = diseases_collection d'"
  shows "\<exists>cached direct.
     query1_disease_info d'' disease_id True ms = Inr (Some cached) \<and>
     query1_disease_info d'' disease_id False ms' = Inr (Some direct) \<and>
     doc_id cached = doc_id direct \<and> name cached = name direct \<and>
     drugs cached = drugs direct \<and> genes cached = genes direct \<and>
     locations cached = locations direct \<and>
     disease_info.truncate cached = disease_info.truncate direct"
proof -
  from build have run: "for_each cache_disease (filter (\<lambda>n. label n = ''Disease'') (nodes d)) d = Inr d'"
    by (simp add: build_mongo_cache_def)
  from match_disease_node [OF present] obtain n where
    n: "n \<in> set (filter (\<lambda>n. label n = ''Disease'') (nodes d))" "n_id n = Some disease_id"
    by blast
  from cache_all_diseases [OF run] n obtain info where
    info: "get_disease_info_from_neo4j d (Some disease_id) None = Inr info"
      "diseases_collection d' (Some disease_id) = Some info"
    by (metis (no_types, lifting))
  from info(1) obtain rn rd rg rl where
    rec: "single (disease_query d (Some disease_id)) = Some (rn, rd, rg, rl)" and
    doc: "info = \<lparr>doc_id = Some disease_id, name = rn,
               drugs = filter (\<lambda>x. drug_id x \<noteq> None) rd,
               genes = filter (\<lambda>g. gene_id g \<noteq> None) rg,
               locations = filter (\<lambda>l. location_id l \<noteq> None) rl\<rparr>"
    by (auto simp: get_disease_info_from_neo4j_def split: option.splits)
  let ?cached = "disease_info.extend info \<lparr>query_time_ms = ms, data_source = ''MongoDB (cached)''\<rparr>"
  let ?direct = "disease_info.extend info \<lparr>query_time_ms = ms', data_source = ''Neo4j (direct)''\<rparr>"
  have c: "query1_disease_info d'' disease_id True ms = Inr (Some ?cached)"
    using info(2) unchanged(3) by (simp add: query1_disease_info_def)
  have "disease_query d'' (Some disease_id) = disease_query d (Some disease_id)"
    by (rule disease_query_graph [OF unchanged(1,2)])
  with rec doc have r: "query1_disease_info d'' disease_id False ms' = Inr (Some ?direct)"
    by (simp add: query1_disease_info_def)
  have "doc_id ?cached = doc_id ?direct \<and> name ?cached = name ?direct \<and>
     drugs ?cached = drugs ?direct \<and> genes ?cached = genes ?direct \<and>
     locations ?cached = locations ?direct \<and>
     disease_info.truncate ?cached = disease_info.truncate ?direct"
    by (simp add: disease_info.extend_def disease_info.truncate_def)
  with c r show ?thesis by blast
qed

theorem cache_agrees_with_direct_witness:
  "\<exists>d' cached direct.
     build_mongo_cache scenario_db = Inr d' \<and>
     query1_disease_info d' ''D1'' True 3 = Inr (Some cached) \<and>
     query1_disease_info d' ''D1'' False 5 = Inr (Some direct) \<and>
     name cached = name direct \<and> drugs cached = drugs direct \<and>
     genes cached = genes direct \<and> locations cached = locations direct \<and>
     data_source cached \<noteq> data_source direct"
proof -
  obtain d' where build: "build_mongo_cache scenario_db = Inr d'"
    by (simp add: cache_eval)
  have present: "match_disease scenario_db (Some ''D1'') \<noteq> []"
    by (simp add: query_eval)
  from build have graph: "nodes d' = nodes scenario_db" "edges d' = edges scenario_db"
    using cache_all_diseases [of "filter (\<lambda>n. label n = ''Disease'') (nodes scenario_db)" scenario_db d']
    by (simp_all add: build_mongo_cache_def)
  from cache_agrees_with_direct [OF build present graph refl, of 3 5] obtain cached direct where
    r: "query1_disease_info d' ''D1'' True 3 = Inr (Some cached)"
      "query1_disease_info d' ''D1'' False 5 = Inr (Some direct)"
      "name cached = name direct" "drugs cached = drugs direct"
      "genes cached = genes direct" "locations cached = locations direct"
    by blast
  from r(1) have "data_source cached = ''MongoDB (cached)''"
    by (auto simp: query1_disease_info_def disease_info.extend_def split: option.splits)
  moreover from r(2) have "data_source direct = ''Neo4j (direct)''"
    by (auto simp: query1_disease_info_def disease_info.extend_def split: option.splits)
  ultimately have "data_source cached \<noteq> data_source direct" by simp
  with build r show ?thesis by blast
qed

text \<open>Claim C1 as stated fails: the disease is in the store when the cache is rebuilt,
  the edges are loaded afterwards, and the cached document has no drugs while the direct
  read finds DrugA.  Nothing in the client refreshes the cache when the graph changes.\<close>

theorem stale_cache_counterexample:
  "build_mongo_cache nodes_db = Inr cached_nodes_db \<and>
   match_disease nodes_db (Some ''D1'') = [flu] \<and>
   load_edges scenario_edges cached_nodes_db = Inr stale_db \<and>
   map_sum id (map_option drugs) (query1_disease_info stale_db ''D1'' True 0) = Inr (Some []) \<and>
   map_sum id (map_option drugs) (query1_disease_info stale_db ''D1'' False 0) =
     Inr (Some [\<lparr>drug_id = Some ''C1'', drug_name = Some ''DrugA'', drug_type = Some ''TREATS''\<rparr>])"
proof (intro conjI)
  show "build_mongo_cache nodes_db = Inr cached_nodes_db"
    by (rule build_nodes_cache)
  show "match_disease nodes_db (Some ''D1'') = [flu]"
    by (simp add: query_eval)
  show "load_edges scenario_edges cached_nodes_db = Inr stale_db"
    by (rule load_stale_edges)
  show "map_sum id (map_option drugs) (query1_disease_info stale_db ''D1'' True 0) = Inr (Some [])"
    by (simp add: query1_disease_info_def stale_db_def flu_bare_doc_def disease_info.extend_def)
  show "map_sum id (map_option drugs) (query1_disease_info stale_db ''D1'' False 0) =
     Inr (Some [\<lparr>drug_id = Some ''C1'', drug_name = Some ''DrugA'', drug_type = Some ''TREATS''\<rparr>])"
    by (simp add: query1_disease_info_def disease_query_def disease_rows_def query_eval
      disease_info.extend_def stale_db_def)
qed

end
